theory Spec2Isabelle
  imports Main "HOL-Library.Sublist"
begin

section \<open>git-keeper: the submission test runner (gkeepserver/submission.py)\<close>

text \<open>
  A shallow embedding of \<^verbatim>\<open>gkeepserver/submission.py\<close>: the class \<^verbatim>\<open>Submission\<close> with
  \<^verbatim>\<open>run_tests\<close>, \<^verbatim>\<open>_add_report\<close>, the three command builders and the two
  precondition emails, and the module functions \<^verbatim>\<open>write_run_action_sh\<close> and
  \<^verbatim>\<open>report_failure\<close>.

  Python statements that have an effect become functions from a \<open>world\<close> to a result and
  a new world; an exception is the result \<open>Inl e\<close>. A leading underscore of a Python
  name is dropped (\<open>add_report\<close> is \<^verbatim>\<open>_add_report\<close>).
\<close>

subsection \<open>Python library functions used by the module\<close>

text \<open>\<^verbatim>\<open>str(n)\<close> for an integer: decimal digits, a minus sign for a negative number.\<close>

definition digit_char :: "nat \<Rightarrow> char" where
  "digit_char d = ''0123456789'' ! d"

function str_nat :: "nat \<Rightarrow> string" where
  "str_nat n = (if n < 10 then [digit_char n] else str_nat (n div 10) @ [digit_char (n mod 10)])"
  by pat_completeness auto
termination
  by (relation "measure (\<lambda>n. n)") auto

declare str_nat.simps [simp del]

definition str_int :: "int \<Rightarrow> string" where
  "str_int i = (if i < 0 then CHR ''-'' # str_nat (nat (- i)) else str_nat (nat i))"

text \<open>\<^verbatim>\<open>os.path.join(a, b)\<close> of posixpath, for two components.\<close>

definition os_path_join :: "string \<Rightarrow> string \<Rightarrow> string" where
  "os_path_join a b =
     (case b of
        c # _ \<Rightarrow>
          if c = CHR ''/'' then b
          else if a = [] \<or> last a = CHR ''/'' then a @ b
          else a @ ''/'' @ b
      | [] \<Rightarrow> if a = [] \<or> last a = CHR ''/'' then a else a @ ''/'')"

text \<open>
  \<^verbatim>\<open>s.split()\<close> with no separator: the maximal runs of characters that are not white
  space. A character here is one of the 256 code points that fit into eight bits; the
  white space characters are those of \<^verbatim>\<open>str.isspace\<close> among them: tab to carriage return,
  the four separators from 1C to 1F, the space, U+0085 and U+00A0.
\<close>

definition is_space :: "char \<Rightarrow> bool" where
  "is_space c = (c \<in> set [CHR 0x09, CHR 0x0A, CHR 0x0B, CHR 0x0C, CHR 0x0D,
                            CHR 0x1C, CHR 0x1D, CHR 0x1E, CHR 0x1F, CHR '' '',
                            CHR 0x85, CHR 0xA0])"

fun split_go :: "string \<Rightarrow> string \<Rightarrow> string list" where
  "split_go cur [] = (if cur = [] then [] else [rev cur])"
| "split_go cur (c # cs) =
     (if is_space c then (if cur = [] then split_go [] cs else rev cur # split_go [] cs)
      else split_go (c # cur) cs)"

definition split_py :: "string \<Rightarrow> string list" where
  "split_py s = split_go [] s"

text \<open>
  \<^verbatim>\<open>template.format(**kw)\<close> for a template whose replacement fields are plain keyword
  names: \<^verbatim>\<open>{name}\<close> is replaced by the value of \<open>name\<close>, \<^verbatim>\<open>{{\<close> and \<^verbatim>\<open>}}\<close> are the
  escaped braces. The second argument is the scanner's state: \<open>None\<close> in literal
  text, \<open>Some acc\<close> inside a field whose name read so far is \<open>rev acc\<close>. The result
  \<open>None\<close> is Python's \<^verbatim>\<open>ValueError\<close> (a single brace, an unclosed field) or
  \<^verbatim>\<open>KeyError\<close> (a name that is not a keyword).
\<close>

fun format_py :: "(string \<times> string) list \<Rightarrow> string option \<Rightarrow> string \<Rightarrow> string option" where
  "format_py kw None [] = Some []"
| "format_py kw (Some acc) [] = None"
| "format_py kw None (c # cs) =
     (if c = CHR ''{'' then
        (case cs of
           [] \<Rightarrow> None
         | c' # cs' \<Rightarrow>
             if c' = CHR ''{'' then map_option ((#) c) (format_py kw None cs')
             else format_py kw (Some []) cs)
      else if c = CHR ''}'' then
        (case cs of
           [] \<Rightarrow> None
         | c' # cs' \<Rightarrow>
             if c' = CHR ''}'' then map_option ((#) c) (format_py kw None cs')
             else None)
      else map_option ((#) c) (format_py kw None cs))"
| "format_py kw (Some acc) (c # cs) =
     (if c = CHR ''}'' then
        (case map_of kw (rev acc) of
           None \<Rightarrow> None
         | Some v \<Rightarrow> map_option ((@) v) (format_py kw None cs))
      else format_py kw (Some (c # acc)) cs)"

subsection \<open>Data model\<close>

text \<open>
  \<^verbatim>\<open>gkeepcore.student.Student\<close>, \<^verbatim>\<open>gkeepserver.assignments.AssignmentDirectory\<close>,
  \<^verbatim>\<open>gkeepserver.server_email.Email\<close>, \<^verbatim>\<open>gkeepcore.test_env_yaml.TestEnv\<close> and
  \<^verbatim>\<open>gkeepserver.server_configuration.config\<close> are imported by the module; the
  records below have the attributes that the module reads.
\<close>

record Student =
  username :: string
  email_address :: string
  last_name :: string
  first_name :: string

record AssignmentDirectory =
  path :: string
  tests_path :: string
  reports_repo_path :: string
  class_name :: string
  assignment_name :: string
  test_env_path :: string

text \<open>
  The attributes assigned by \<^verbatim>\<open>Submission.__init__\<close>. Those copied from the assignment
  directory (\<^verbatim>\<open>self.tests_path\<close>, \<^verbatim>\<open>self.class_name\<close>, ...) are read through
  \<open>assignment_dir\<close>.
\<close>

record Submission =
  assignment_dir :: AssignmentDirectory
  student :: Student
  student_repo_path :: string
  commit_hash :: string
  faculty_username :: string
  faculty_email :: string

text \<open>
  \<^verbatim>\<open>TestEnvType\<close>: the three members that the module names, and \<open>UNKNOWN s\<close> for any
  other value of \<^verbatim>\<open>test_env.type\<close>, with \<open>s\<close> what \<^verbatim>\<open>str\<close> makes of it.
\<close>

datatype TestEnvType = HOST | FIREJAIL | DOCKER | UNKNOWN string

record TestEnv =
  type :: TestEnvType
  container_image :: string
  append_args :: "string option"

datatype email_body = Text string | Lines "string list"

record Email =
  to_address :: string
  subject :: string
  body :: email_body
  html_pre_body :: bool

record server_configuration =
  tester_user :: string
  keeper_group :: string
  tests_timeout :: int
  tests_memory_limit :: int

text \<open>
  An exception is \<^verbatim>\<open>GkeepException\<close> or some other subclass of \<^verbatim>\<open>Exception\<close>, with
  the text that \<^verbatim>\<open>str(e)\<close> returns.
\<close>

datatype exn = GkeepException string | OtherException string

fun str_exn :: "exn \<Rightarrow> string" where
  "str_exn (GkeepException m) = m"
| "str_exn (OtherException m) = m"

subsection \<open>The world outside the module\<close>

text \<open>
  The calls into \<^verbatim>\<open>gkeepcore\<close>, \<^verbatim>\<open>gkeepserver\<close> and the Python library whose only
  result is success or an exception, with their arguments. Each one is recorded in the
  world when it is made. What \<^verbatim>\<open>git\<close>, \<^verbatim>\<open>cp\<close>, \<^verbatim>\<open>chmod\<close> and \<^verbatim>\<open>chown\<close> do to the file
  system is not tracked: no statement below depends on it.
\<close>

datatype call =
    Chmod string string
  | GitClone string string
  | GitCheckout string string
  | Cp string string bool
  | Mv string string
  | SudoChown string string string
  | Rm string
  | Makedirs string
  | OpenWrite string
  | GitAddAll string
  | GitCommit string string
  | LockAcquire string
  | LockRelease string
  | ReportsCloneEnter string
  | ReportsCloneExit string

text \<open>
  The state that a run reads and changes:
  \<^item> \<open>emails\<close>: the queue of \<^verbatim>\<open>email_sender\<close>, oldest first;
  \<^item> \<open>scans\<close>: the queue of \<^verbatim>\<open>info_updater.enqueue_submission_scan\<close>;
  \<^item> \<open>spawned\<close>: the commands given to \<^verbatim>\<open>run_command\<close>, in order;
  \<^item> \<open>calls\<close>: the other calls made, in order;
  \<^item> \<open>dirs\<close> and \<open>files\<close>: the directories, and the regular files with their
    contents, of the file system.
\<close>

record world =
  emails :: "Email list"
  scans :: "(string \<times> string \<times> string \<times> string) list"
  spawned :: "string list list"
  calls :: "call list"
  dirs :: "string list"
  files :: "(string \<times> string) list"

text \<open>
  What the collaborators answer. None of them is among the sources, so each is a
  parameter of the model:
  \<^item> \<open>config\<close>, \<open>user_home_dir\<close>: the configuration of the server and the home
    directory of a user;
  \<^item> \<open>parse_submission_repo_path\<close>: the faculty username, class name and assignment
    name of a repository path, or the exception raised for a path that has none;
  \<^item> \<open>class_is_open\<close>, \<open>is_disabled\<close>: the two queries of the database, which answer
    with a truth value;
  \<^item> \<open>time\<close>: \<^verbatim>\<open>int(time())\<close>; \<open>strftime\<close>: the local time in a given format;
  \<^item> \<open>mkdtemp_result d pre\<close>: the path that \<^verbatim>\<open>mkdtemp(dir=d, prefix=pre)\<close> makes, or
    its exception;
  \<^item> \<open>TestEnv_result p\<close>: the environment read from the file \<open>p\<close>, or the exception of
    the constructor;
  \<^item> \<open>get_action_script_and_interpreter\<close>: the script and the interpreter found in a
    tests directory, each \<open>None\<close> when there is none;
  \<^item> \<open>TemporaryDirectory_name\<close>: the directory that \<^verbatim>\<open>TemporaryDirectory()\<close> makes;
  \<^item> \<open>run_command_result cmd\<close>: the output of the command, or its exception;
  \<^item> \<open>reports_clone_result\<close>: the working copy of a report repository, or the exception
    of the clone;
  \<^item> \<open>outcome c\<close>: the exception that the call \<open>c\<close> raises, if any.
\<close>

record ext =
  config :: server_configuration
  user_home_dir :: "string \<Rightarrow> string"
  parse_submission_repo_path :: "string \<Rightarrow> exn + (string \<times> string \<times> string)"
  class_is_open :: "string \<Rightarrow> string \<Rightarrow> bool"
  is_disabled :: "string \<Rightarrow> string \<Rightarrow> string \<Rightarrow> bool"
  time :: int
  strftime :: "string \<Rightarrow> string"
  mkdtemp_result :: "string \<Rightarrow> string \<Rightarrow> exn + string"
  TestEnv_result :: "string \<Rightarrow> exn + TestEnv"
  get_action_script_and_interpreter :: "string \<Rightarrow> string option \<times> string option"
  TemporaryDirectory_name :: string
  run_command_result :: "string list \<Rightarrow> exn + string"
  reports_clone_result :: "string \<Rightarrow> exn + string"
  outcome :: "call \<Rightarrow> exn option"

type_synonym 'a io = "world \<Rightarrow> (exn + 'a) \<times> world"

definition io_return :: "'a \<Rightarrow> 'a io" where
  "io_return v w = (Inr v, w)"

definition io_raise :: "exn \<Rightarrow> 'a io" where
  "io_raise e w = (Inl e, w)"

definition io_bind :: "'a io \<Rightarrow> ('a \<Rightarrow> 'b io) \<Rightarrow> 'b io" where
  "io_bind m f w = (case m w of (Inl e, w') \<Rightarrow> (Inl e, w') | (Inr v, w') \<Rightarrow> f v w')"

definition io_then :: "unit io \<Rightarrow> 'b io \<Rightarrow> 'b io" where
  "io_then m n = io_bind m (\<lambda>_. n)"

text \<open>\<^verbatim>\<open>try: m except Exception as e: h(e)\<close>\<close>

definition io_try :: "unit io \<Rightarrow> (exn \<Rightarrow> unit io) \<Rightarrow> unit io" where
  "io_try m h w = (case m w of (Inl e, w') \<Rightarrow> h e w' | (Inr v, w') \<Rightarrow> (Inr v, w'))"

text \<open>A value that a collaborator returns, or the exception it raises.\<close>

definition io_lift :: "exn + 'a \<Rightarrow> 'a io" where
  "io_lift r w = (r, w)"

definition record_call :: "call \<Rightarrow> world \<Rightarrow> world" where
  "record_call c w = w\<lparr>calls := calls w @ [c]\<rparr>"

text \<open>A call with no effect on the file system of the model.\<close>

definition do_call :: "ext \<Rightarrow> call \<Rightarrow> unit io" where
  "do_call x c w =
     (case outcome x c of
        Some e \<Rightarrow> (Inl e, record_call c w)
      | None \<Rightarrow> (Inr (), record_call c w))"

text \<open>A call that changes the file system by \<open>f\<close> when it succeeds.\<close>

definition do_call_fs :: "ext \<Rightarrow> call \<Rightarrow> (world \<Rightarrow> world) \<Rightarrow> unit io" where
  "do_call_fs x c f w =
     (case outcome x c of
        Some e \<Rightarrow> (Inl e, record_call c w)
      | None \<Rightarrow> (Inr (), f (record_call c w)))"

text \<open>\<^verbatim>\<open>os.path.exists\<close>, \<^verbatim>\<open>os.path.isdir\<close>, and the contents of a regular file.\<close>

definition path_exists :: "world \<Rightarrow> string \<Rightarrow> bool" where
  "path_exists w p = (p \<in> set (dirs w) \<or> p \<in> fst ` set (files w))"

definition isdir :: "world \<Rightarrow> string \<Rightarrow> bool" where
  "isdir w p = (p \<in> set (dirs w))"

definition read_file :: "world \<Rightarrow> string \<Rightarrow> string option" where
  "read_file w p = map_of (files w) p"

text \<open>\<open>q\<close> is \<open>p\<close> or lies below the directory \<open>p\<close>.\<close>

definition below :: "string \<Rightarrow> string \<Rightarrow> bool" where
  "below p q = (q = p \<or> prefix (p @ ''/'') q)"

subsection \<open>Primitive effects\<close>

text \<open>
  \<^verbatim>\<open>email_sender.enqueue\<close> and \<^verbatim>\<open>info_updater.enqueue_submission_scan\<close> put an item
  on a queue and return.
\<close>

definition enqueue_email :: "Email \<Rightarrow> unit io" where
  "enqueue_email e w = (Inr (), w\<lparr>emails := emails w @ [e]\<rparr>)"

definition enqueue_submission_scan :: "string \<Rightarrow> string \<Rightarrow> string \<Rightarrow> string \<Rightarrow> unit io" where
  "enqueue_submission_scan fac cls asg usr w = (Inr (), w\<lparr>scans := scans w @ [(fac, cls, asg, usr)]\<rparr>)"

text \<open>\<^verbatim>\<open>run_command(cmd)\<close>: the command is spawned; its output is returned, or it raises.\<close>

definition run_command :: "ext \<Rightarrow> string list \<Rightarrow> string io" where
  "run_command x cmd w = (run_command_result x cmd, w\<lparr>spawned := spawned w @ [cmd]\<rparr>)"

text \<open>
  \<^verbatim>\<open>with directory_locks.get_lock(p): m\<close>: the lock is released on every way out of
  \<open>m\<close>.
\<close>

definition with_lock :: "string \<Rightarrow> 'a io \<Rightarrow> 'a io" where
  "with_lock p m w =
     (case m (record_call (LockAcquire p) w) of (r, w') \<Rightarrow> (r, record_call (LockRelease p) w'))"

text \<open>\<^verbatim>\<open>mkdtemp(dir=d, prefix=pre)\<close> creates a directory and returns its path.\<close>

definition mkdtemp :: "ext \<Rightarrow> string \<Rightarrow> string \<Rightarrow> string io" where
  "mkdtemp x d pre w =
     (case mkdtemp_result x d pre of
        Inl e \<Rightarrow> (Inl e, w)
      | Inr p \<Rightarrow> (Inr p, w\<lparr>dirs := dirs w @ [p]\<rparr>))"

text \<open>
  Modelled from the spec: \<^verbatim>\<open>gkeepcore.system_commands.rm\<close> is not among the sources; the
  spec has it remove the temporary directory. \<^verbatim>\<open>rm(p, recursive=True, sudo=True)\<close>
  removes \<open>p\<close> and all that lies below it, or raises and removes nothing.
\<close>

definition rm_tree :: "string \<Rightarrow> world \<Rightarrow> world" where
  "rm_tree p w =
     w\<lparr>dirs := filter (\<lambda>q. \<not> below p q) (dirs w),
       files := filter (\<lambda>(q, _). \<not> below p q) (files w)\<rparr>"

definition rm :: "ext \<Rightarrow> string \<Rightarrow> unit io" where
  "rm x p = do_call_fs x (Rm p) (rm_tree p)"

text \<open>
  Modelled from the spec: \<^verbatim>\<open>gkeepcore.system_commands.mv\<close> is not among the sources; the
  spec lists it as the file system's move. \<^verbatim>\<open>mv(src, dst, sudo=True)\<close> moves the regular
  file \<open>src\<close> onto the path \<open>dst\<close>, or raises and moves nothing.
\<close>

definition mv_file :: "string \<Rightarrow> string \<Rightarrow> world \<Rightarrow> world" where
  "mv_file src dst w =
     (case map_of (files w) src of
        None \<Rightarrow> w
      | Some content \<Rightarrow>
          w\<lparr>files := (dst, content) # filter (\<lambda>(q, _). q \<noteq> src \<and> q \<noteq> dst) (files w)\<rparr>)"

definition mv :: "ext \<Rightarrow> string \<Rightarrow> string \<Rightarrow> unit io" where
  "mv x src dst = do_call_fs x (Mv src dst) (mv_file src dst)"

text \<open>\<^verbatim>\<open>with open(p, 'w') as f: f.write(content)\<close>\<close>

definition put_file :: "string \<Rightarrow> string \<Rightarrow> world \<Rightarrow> world" where
  "put_file p content w = w\<lparr>files := (p, content) # filter (\<lambda>(q, _). q \<noteq> p) (files w)\<rparr>"

definition write_file :: "ext \<Rightarrow> string \<Rightarrow> string \<Rightarrow> unit io" where
  "write_file x p content = do_call_fs x (OpenWrite p) (put_file p content)"

text \<open>\<^verbatim>\<open>os.makedirs(p, exist_ok=True)\<close>; the parents of \<open>p\<close> are not tracked.\<close>

definition makedirs :: "ext \<Rightarrow> string \<Rightarrow> unit io" where
  "makedirs x p =
     do_call_fs x (Makedirs p) (\<lambda>w. if p \<in> set (dirs w) then w else w\<lparr>dirs := dirs w @ [p]\<rparr>)"

subsection \<open>The Failure Reporter and the precondition emails\<close>

text \<open>
  \<^verbatim>\<open>report_failure(assignment, student, faculty_email, message)\<close>, lines 329 to 345:
  the message to the student (\<^verbatim>\<open>s_subject\<close>, \<^verbatim>\<open>s_body\<close>), the message to the faculty
  (\<^verbatim>\<open>f_subject\<close>, \<^verbatim>\<open>f_body\<close>), and the function that enqueues the one and then the
  other.
\<close>

definition failure_student_email :: "string \<Rightarrow> Student \<Rightarrow> Email" where
  "failure_student_email assignment stu =
     (let s_subject = assignment @ '': Failed to process submission - contact instructor'';
          s_body = [''Your submission was received, but something went wrong.'',
                    ''This is likely your instructor'' @ [CHR 0x27] @ ''s fault, not yours.'',
                    ''Please contact your instructor about this error!'']
      in \<lparr>to_address = email_address stu, subject = s_subject,
          body = Lines s_body, html_pre_body = False\<rparr>)"

definition failure_faculty_email :: "string \<Rightarrow> Student \<Rightarrow> string \<Rightarrow> string \<Rightarrow> Email" where
  "failure_faculty_email assignment stu fac_email message =
     (let f_subject = ''git-keeper run_tests failure'';
          f_body = [''student: '' @ first_name stu @ '' '' @ last_name stu,
                    ''email: '' @ email_address stu,
                    ''assignment '' @ assignment,
                    ''further information:'',
                    message]
      in \<lparr>to_address = fac_email, subject = f_subject,
          body = Lines f_body, html_pre_body = False\<rparr>)"

definition report_failure :: "string \<Rightarrow> Student \<Rightarrow> string \<Rightarrow> string \<Rightarrow> unit io" where
  "report_failure assignment stu fac_email message =
     io_then (enqueue_email (failure_student_email assignment stu))
             (enqueue_email (failure_faculty_email assignment stu fac_email message))"

text \<open>
  \<^verbatim>\<open>Submission._send_closed_email\<close> and \<^verbatim>\<open>Submission._send_disabled_email\<close>, lines 252
  to 274, each with the message it builds. The calls of the logger have no effect on the
  world of the model.
\<close>

definition closed_email :: "Submission \<Rightarrow> string \<Rightarrow> Email" where
  "closed_email self p_class_name =
     (let subj = ''['' @ p_class_name @ ''] class is closed'';
          text_body = ''You have pushed a submission for a class that is is closed.''
      in \<lparr>to_address = email_address (student self), subject = subj,
          body = Text text_body, html_pre_body = False\<rparr>)"

definition send_closed_email :: "Submission \<Rightarrow> string \<Rightarrow> string \<Rightarrow> unit io" where
  "send_closed_email self p_class_name p_assignment_name =
     enqueue_email (closed_email self p_class_name)"

definition disabled_email :: "Submission \<Rightarrow> string \<Rightarrow> string \<Rightarrow> Email" where
  "disabled_email self p_class_name p_assignment_name =
     (let subj = ''['' @ p_class_name @ ''] assignment '' @ p_assignment_name @ '' is disabled'';
          text_body = ''You have pushed a submission for assignment '' @ p_assignment_name
                      @ '' which is disabled. No tests were run on your submission.''
      in \<lparr>to_address = email_address (student self), subject = subj,
          body = Text text_body, html_pre_body = False\<rparr>)"

definition send_disabled_email :: "Submission \<Rightarrow> string \<Rightarrow> string \<Rightarrow> unit io" where
  "send_disabled_email self p_class_name p_assignment_name =
     enqueue_email (disabled_email self p_class_name p_assignment_name)"

subsection \<open>The run-script generator\<close>

definition nl :: string where
  "nl = [CHR 0x0A]"

text \<open>The template of \<^verbatim>\<open>write_run_action_sh\<close>, lines 299 to 309, line by line.\<close>

definition template :: string where
  \<open>template =
     ''#!/bin/bash'' @ nl @
     ''{cd_command}'' @ nl @
     ''GLOBAL_TIMEOUT={global_timeout}'' @ nl @
     ''GLOBAL_MEM_LIMIT_MB={global_memory_limit}'' @ nl @
     ''GLOBAL_MEM_LIMIT_KB=$(($GLOBAL_MEM_LIMIT_MB * 1024))'' @ nl @
     ''ulimit -v $GLOBAL_MEM_LIMIT_KB'' @ nl @
     ''trap 'kill -INT -$pid' INT'' @ nl @
     ''timeout $GLOBAL_TIMEOUT {interpreter} {script_name} "$@" &'' @ nl @
     ''pid=$!'' @ nl @
     ''wait $pid'' @ nl\<close>

text \<open>
  \<^verbatim>\<open>write_run_action_sh(dest_path, tests_path, run_path=None)\<close>, lines 277 to 326. The
  directory of \<^verbatim>\<open>TemporaryDirectory()\<close> is known by its name only; the script is
  written there and moved to \<open>dest_path\<close>.
\<close>

definition write_run_action_sh :: "ext \<Rightarrow> string \<Rightarrow> string \<Rightarrow> string option \<Rightarrow> unit io" where
  "write_run_action_sh x dest_path tests_dir run_path =
     (let temp_dir_path = TemporaryDirectory_name x;
          temp_run_action_sh_path = os_path_join temp_dir_path ''run_action.sh'';
          cd_command = (case run_path of None \<Rightarrow> [] | Some rp \<Rightarrow> ''cd '' @ rp @ ''/tests'')
      in case get_action_script_and_interpreter x tests_dir of
           (Some script_name, Some interpreter) \<Rightarrow>
             (case format_py [(''cd_command'', cd_command),
                              (''global_timeout'', str_int (tests_timeout (config x))),
                              (''global_memory_limit'', str_int (tests_memory_limit (config x))),
                              (''interpreter'', interpreter),
                              (''script_name'', script_name)] None template of
                None \<Rightarrow> io_raise (OtherException ''format'')
              | Some run_action_sh_contents \<Rightarrow>
                  io_then (write_file x temp_run_action_sh_path run_action_sh_contents)
                          (mv x temp_run_action_sh_path dest_path))
         | _ \<Rightarrow> io_raise (GkeepException ''No valid action script found''))"

subsection \<open>The sandbox command builders\<close>

text \<open>\<^verbatim>\<open>Submission._make_docker_command\<close>, lines 218 to 226.\<close>

definition make_docker_command :: "Submission \<Rightarrow> string \<Rightarrow> string \<Rightarrow> string \<Rightarrow> string list" where
  "make_docker_command self temp_path p_assignment_name img =
     [''docker'', ''run'', ''-v'',
      temp_path @ '':/git-keeper-tester'',
      img, ''bash'',
      ''/git-keeper-tester/run_action.sh'',
      os_path_join ''/git-keeper-tester/'' p_assignment_name,
      username (student self), email_address (student self),
      last_name (student self), first_name (student self)]"

text \<open>\<^verbatim>\<open>Submission._make_host_command\<close>, lines 228 to 233.\<close>

definition make_host_command :: "ext \<Rightarrow> Submission \<Rightarrow> string \<Rightarrow> string \<Rightarrow> string list" where
  "make_host_command x self temp_run_action_sh_path temp_assignment_path =
     [''sudo'', ''--user'', tester_user (config x), ''--set-home'', ''bash'',
      temp_run_action_sh_path, temp_assignment_path,
      username (student self), email_address (student self),
      last_name (student self), first_name (student self)]"

text \<open>\<^verbatim>\<open>Submission._make_firejail_command\<close>, lines 235 to 250.\<close>

definition make_firejail_command ::
    "ext \<Rightarrow> Submission \<Rightarrow> string \<Rightarrow> string \<Rightarrow> string option \<Rightarrow> string list" where
  "make_firejail_command x self temp_path p_assignment_name app_args =
     (let tester_home = user_home_dir x (tester_user (config x));
          cmd = [''sudo'', ''--user'', tester_user (config x), ''--set-home'',
                 ''firejail'', ''--noprofile'', ''--quiet'',
                 ''--private='' @ temp_path];
          cmd = (case app_args of None \<Rightarrow> cmd | Some a \<Rightarrow> cmd @ split_py a)
      in cmd @ [''bash'', os_path_join tester_home ''run_action.sh'',
                os_path_join tester_home p_assignment_name,
                username (student self), email_address (student self),
                last_name (student self), first_name (student self)])"

subsection \<open>The Report Recorder\<close>

text \<open>
  Modelled from the spec: \<^verbatim>\<open>Student.get_last_first_username\<close> is not among the
  sources. The spec gives the report directory of a student as
  \<^verbatim>\<open><last>_<first>_<username>\<close>.
\<close>

definition get_last_first_username :: "Student \<Rightarrow> string" where
  "get_last_first_username stu = last_name stu @ ''_'' @ first_name stu @ ''_'' @ username stu"

text \<open>
  Modelled from the spec: \<^verbatim>\<open>gkeepserver.reports.reports_clone\<close> is not among the
  sources. The spec calls it a scoped resource that yields a working copy of the report
  repository of the assignment and releases it on every way out. Here it yields the
  path of the working copy, or raises; the release is recorded on both ways out and can
  raise only after a body that did not.
\<close>

definition with_reports_clone :: "ext \<Rightarrow> AssignmentDirectory \<Rightarrow> (string \<Rightarrow> unit io) \<Rightarrow> unit io" where
  "with_reports_clone x ad f w =
     (case reports_clone_result x (reports_repo_path ad) of
        Inl e \<Rightarrow> (Inl e, record_call (ReportsCloneEnter (reports_repo_path ad)) w)
      | Inr temp_reports_repo_path \<Rightarrow>
          (case f temp_reports_repo_path (record_call (ReportsCloneEnter (reports_repo_path ad)) w) of
             (Inl e, w') \<Rightarrow> (Inl e, record_call (ReportsCloneExit (reports_repo_path ad)) w')
           | (Inr _, w') \<Rightarrow> do_call x (ReportsCloneExit (reports_repo_path ad)) w'))"

text \<open>
  The decimal numbers of two different counters differ, so the numbered report names
  that exist are finitely many and the loop below ends.
\<close>

lemma digit_char_inj: "a < 10 \<Longrightarrow> b < 10 \<Longrightarrow> digit_char a = digit_char b \<Longrightarrow> a = b"
proof -
  assume a: "a < 10" and b: "b < 10" and e: "digit_char a = digit_char b"
  have d: "distinct ''0123456789''" by simp
  have l: "length ''0123456789'' = 10" by simp
  from a b e d l show "a = b"
    unfolding digit_char_def by (metis nth_eq_iff_index_eq)
qed

lemma str_nat_nonempty: "str_nat n \<noteq> []"
  by (subst str_nat.simps) simp

lemma str_nat_inj: "str_nat m = str_nat n \<Longrightarrow> m = n"
proof (induction m arbitrary: n rule: str_nat.induct)
  case (1 m)
  show ?case
  proof (cases "m < 10")
    case small_m: True
    show ?thesis
    proof (cases "n < 10")
      case True
      with small_m "1.prems" show ?thesis
        by (simp add: str_nat.simps [of m] str_nat.simps [of n] digit_char_inj)
    next
      case False
      with small_m "1.prems" show ?thesis
        by (simp add: str_nat.simps [of m] str_nat.simps [of n] str_nat_nonempty
            Cons_eq_append_conv)
    qed
  next
    case big_m: False
    show ?thesis
    proof (cases "n < 10")
      case True
      with big_m "1.prems" show ?thesis
        by (simp add: str_nat.simps [of m] str_nat.simps [of n] str_nat_nonempty
            append_eq_Cons_conv)
    next
      case False
      with big_m "1.prems" have q: "str_nat (m div 10) = str_nat (n div 10)"
        and r: "digit_char (m mod 10) = digit_char (n mod 10)"
        by (simp_all add: str_nat.simps [of m] str_nat.simps [of n])
      from "1.IH" [OF big_m q] have "m div 10 = n div 10" .
      moreover from r have "m mod 10 = n mod 10"
        by (intro digit_char_inj) simp_all
      ultimately show ?thesis
        by (metis div_mult_mod_eq)
    qed
  qed
qed

lemma report_path_inj:
  "os_path_join d (''report-'' @ ts @ ''-'' @ str_nat j @ ''.txt'') =
   os_path_join d (''report-'' @ ts @ ''-'' @ str_nat k @ ''.txt'') \<Longrightarrow> j = k"
  by (auto simp: os_path_join_def dest: str_nat_inj split: if_splits)

lemma finite_numbered_reports:
  "finite {k. path_exists w (os_path_join d (''report-'' @ ts @ ''-'' @ str_nat k @ ''.txt''))}"
proof -
  let ?name = "\<lambda>k. os_path_join d (''report-'' @ ts @ ''-'' @ str_nat k @ ''.txt'')"
  let ?E = "set (dirs w) \<union> fst ` set (files w)"
  have "inj ?name"
    by (rule injI) (rule report_path_inj)
  then have "finite (?name -` ?E)"
    by (intro finite_vimageI) simp_all
  moreover have "{k. path_exists w (?name k)} = ?name -` ?E"
    by (auto simp: path_exists_def)
  ultimately show ?thesis
    by simp
qed

text \<open>
  The loop of \<^verbatim>\<open>_add_report\<close>, lines 201 to 207, on its two variables \<open>counter\<close> and
  \<open>report_file_path\<close>; its result is the path on which the loop stops.
\<close>

function report_path_loop :: "world \<Rightarrow> string \<Rightarrow> string \<Rightarrow> nat \<Rightarrow> string \<Rightarrow> string" where
  "report_path_loop w student_report_dir_path timestamp counter report_file_path =
     (if path_exists w report_file_path then
        report_path_loop w student_report_dir_path timestamp (counter + 1)
          (os_path_join student_report_dir_path
             (''report-'' @ timestamp @ ''-'' @ str_nat counter @ ''.txt''))
      else report_file_path)"
  by pat_completeness auto
termination
proof (relation "measure (\<lambda>(w, d, ts, counter, p).
          2 * card {k. counter \<le> k \<and>
                       path_exists w (os_path_join d (''report-'' @ ts @ ''-'' @ str_nat k @ ''.txt''))}
          + (if path_exists w p then 1 else 0))", goal_cases)
  case 1
  show ?case by simp
next
  case (2 w d ts counter p)
  let ?name = "\<lambda>k. os_path_join d (''report-'' @ ts @ ''-'' @ str_nat k @ ''.txt'')"
  let ?S = "\<lambda>c. {k. c \<le> k \<and> path_exists w (?name k)}"
  have fin: "finite (?S c)" for c
    by (rule finite_subset [OF _ finite_numbered_reports [of w d ts]]) auto
  show ?case
  proof (cases "path_exists w (?name counter)")
    case True
    then have "?S counter = insert counter (?S (counter + 1))"
      by (auto simp: le_Suc_eq)
    moreover have "counter \<notin> ?S (counter + 1)"
      by simp
    ultimately have "card (?S counter) = Suc (card (?S (counter + 1)))"
      using fin [of "counter + 1"] by (simp del: One_nat_def add: card_insert_disjoint)
    with True 2 show ?thesis
      by simp
  next
    case False
    then have "?S counter = ?S (counter + 1)"
      by (auto simp: le_Suc_eq) (metis Suc_leI le_neq_implies_less)
    with False 2 show ?thesis
      by simp
  qed
qed


declare report_path_loop.simps [simp del]

text \<open>\<^verbatim>\<open>Submission._add_report\<close>, lines 187 to 216.\<close>

definition add_report :: "ext \<Rightarrow> Submission \<Rightarrow> string \<Rightarrow> unit io" where
  "add_report x self report_body =
     with_reports_clone x (assignment_dir self) (\<lambda>temp_reports_repo_path.
       let last_first_username = get_last_first_username (student self);
           student_report_dir_path = os_path_join temp_reports_repo_path last_first_username
       in io_then (makedirs x student_report_dir_path)
         (let timestamp = strftime x ''%Y-%m-%d_%H-%M-%S-%Z'';
              report_filename = ''report-'' @ timestamp @ ''.txt'';
              report_file_path = os_path_join student_report_dir_path report_filename
          in io_bind (\<lambda>w. (Inr (report_path_loop w student_report_dir_path timestamp 1
                                    report_file_path), w))
               (\<lambda>report_file_path.
                  io_then (write_file x report_file_path report_body)
                    (let reports_commit_message = ''Submission report for '' @ last_first_username
                     in io_then (do_call x (GitAddAll temp_reports_repo_path))
                          (do_call x (GitCommit temp_reports_repo_path reports_commit_message))))))"

subsection \<open>The Execution Orchestrator\<close>

fun str_TestEnvType :: "TestEnvType \<Rightarrow> string" where
  "str_TestEnvType HOST = ''TestEnvType.HOST''"
| "str_TestEnvType FIREJAIL = ''TestEnvType.FIREJAIL''"
| "str_TestEnvType DOCKER = ''TestEnvType.DOCKER''"
| "str_TestEnvType (UNKNOWN s) = s"

text \<open>
  \<^verbatim>\<open>Submission.run_tests\<close> is given in four parts, in the order of its text. The names
  \<open>p_faculty_username\<close>, \<open>p_class_name\<close> and \<open>p_assignment_name\<close> are the local
  variables that \<^verbatim>\<open>parse_submission_repo_path\<close> sets, as opposed to the attributes of
  \<open>self\<close>. The calls of the logger have no effect on the world of the model.

  Lines 104 to 138: the temporary directory is made and filled. The result is
  \<open>temp_path\<close>.
\<close>

definition run_tests_prepare :: "ext \<Rightarrow> Submission \<Rightarrow> string \<Rightarrow> string io" where
  "run_tests_prepare x self p_assignment_name =
     io_bind (mkdtemp x (user_home_dir x (tester_user (config x))) (str_int (time x) @ ''_''))
       (\<lambda>temp_path.
     io_then (do_call x (Chmod temp_path ''770''))
       (let temp_assignment_path = os_path_join temp_path p_assignment_name in
     io_then (do_call x (GitClone (student_repo_path self) temp_path))
    (io_then (do_call x (GitCheckout temp_assignment_path (commit_hash self)))
    (io_then (with_lock (path (assignment_dir self))
                (io_then (do_call x (Cp (tests_path (assignment_dir self)) temp_path True))
                   (\<lambda>w. if path_exists w (test_env_path (assignment_dir self))
                        then do_call x (Cp (test_env_path (assignment_dir self)) temp_path False) w
                        else io_return () w)))
       (let temp_run_action_sh_path = os_path_join temp_path ''run_action.sh'' in
     io_bind (io_lift (TestEnv_result x (os_path_join temp_path ''test_env.yaml'')))
       (\<lambda>test_env.
     io_then (if type test_env = FIREJAIL then
                write_run_action_sh x temp_run_action_sh_path (tests_path (assignment_dir self))
                  (Some (user_home_dir x (tester_user (config x))))
              else if type test_env = DOCKER then
                write_run_action_sh x temp_run_action_sh_path (tests_path (assignment_dir self))
                  None
              else
                write_run_action_sh x temp_run_action_sh_path (tests_path (assignment_dir self))
                  (Some temp_path))
    (io_then (do_call x (SudoChown temp_path (tester_user (config x)) (keeper_group (config x))))
       (io_return temp_path))))))))"

text \<open>Lines 142 to 159, the first part of the \<^verbatim>\<open>try\<close> block: the command is chosen.\<close>

definition run_tests_make_command :: "ext \<Rightarrow> Submission \<Rightarrow> string \<Rightarrow> string \<Rightarrow> string list io" where
  "run_tests_make_command x self temp_path p_assignment_name =
     io_bind (io_lift (TestEnv_result x (test_env_path (assignment_dir self))))
       (\<lambda>test_env.
          if type test_env = DOCKER then
            io_bind (run_command x [''docker'', ''pull'', container_image test_env])
              (\<lambda>_. io_return (make_docker_command self temp_path p_assignment_name
                                (container_image test_env)))
          else if type test_env = FIREJAIL then
            io_return (make_firejail_command x self temp_path p_assignment_name
                         (append_args test_env))
          else if type test_env = HOST then
            io_return (make_host_command x self (os_path_join temp_path ''run_action.sh'')
                         (os_path_join temp_path p_assignment_name))
          else
            io_raise (GkeepException (''Unknown test env type ''
                                       @ str_TestEnvType (type test_env))))"

text \<open>
  Lines 163 to 175, the last part of the \<^verbatim>\<open>try\<close> block: the output of the tests is
  mailed (the message of lines 164 to 167 is \<open>result_email\<close>) and, for a student who is
  not the faculty, archived.
\<close>

definition result_email :: "Submission \<Rightarrow> string \<Rightarrow> string \<Rightarrow> string \<Rightarrow> Email" where
  "result_email self p_class_name p_assignment_name test_output =
     (let subj = ''['' @ p_class_name @ ''] '' @ p_assignment_name @ '' submission test results''
      in \<lparr>to_address = email_address (student self), subject = subj,
          body = Text test_output, html_pre_body = True\<rparr>)"

definition run_tests_completed ::
    "ext \<Rightarrow> Submission \<Rightarrow> string \<Rightarrow> string \<Rightarrow> string \<Rightarrow> string \<Rightarrow> unit io" where
  "run_tests_completed x self p_faculty_username p_class_name p_assignment_name test_output =
     io_then (enqueue_email (result_email self p_class_name p_assignment_name test_output))
       (if username (student self) \<noteq> p_faculty_username then
          io_then (with_lock (path (assignment_dir self)) (add_report x self test_output))
            (enqueue_submission_scan (faculty_username self)
               (class_name (assignment_dir self))
               (assignment_name (assignment_dir self))
               (username (student self)))
        else io_return ())"

text \<open>The \<^verbatim>\<open>try\<close> block, lines 142 to 175.\<close>

definition run_tests_try :: "ext \<Rightarrow> Submission \<Rightarrow> string \<Rightarrow> string \<Rightarrow> string \<Rightarrow> string \<Rightarrow> unit io" where
  "run_tests_try x self p_faculty_username p_class_name p_assignment_name temp_path =
     io_bind (run_tests_make_command x self temp_path p_assignment_name)
       (\<lambda>cmd. io_bind (run_command x cmd)
          (run_tests_completed x self p_faculty_username p_class_name p_assignment_name))"

text \<open>Lines 181 and 182.\<close>

definition run_tests_cleanup :: "ext \<Rightarrow> string \<Rightarrow> unit io" where
  "run_tests_cleanup x temp_path w = (if isdir w temp_path then rm x temp_path w else io_return () w)"

text \<open>\<^verbatim>\<open>Submission.run_tests\<close>, lines 76 to 185.\<close>

definition run_tests :: "ext \<Rightarrow> Submission \<Rightarrow> unit io" where
  "run_tests x self =
     io_bind (io_lift (parse_submission_repo_path x (student_repo_path self)))
       (\<lambda>(p_faculty_username, p_class_name, p_assignment_name).
          if \<not> class_is_open x p_class_name p_faculty_username then
            send_closed_email self p_class_name p_assignment_name
          else if is_disabled x p_class_name p_assignment_name p_faculty_username then
            send_disabled_email self p_class_name p_assignment_name
          else
            io_bind (run_tests_prepare x self p_assignment_name)
              (\<lambda>temp_path.
                 io_then
                   (io_try
                      (run_tests_try x self p_faculty_username p_class_name p_assignment_name
                         temp_path)
                      (\<lambda>e. report_failure p_assignment_name (student self) (faculty_email self)
                             (str_exn e)))
                   (run_tests_cleanup x temp_path)))"

subsection \<open>Concrete inputs\<close>

text \<open>
  A student, an assignment and collaborators that all succeed, in a host environment;
  the examples below change one answer of the collaborators at a time.
\<close>

definition alice :: Student where
  "alice = \<lparr>username = ''alice'', email_address = ''alice@school.edu'',
            last_name = ''Liddell'', first_name = ''Alice''\<rparr>"

definition hw1_dir :: AssignmentDirectory where
  "hw1_dir = \<lparr>path = ''/home/prof/cs1/hw1'',
              tests_path = ''/home/prof/cs1/hw1/tests'',
              reports_repo_path = ''/home/prof/cs1/hw1/reports.git'',
              class_name = ''cs1'',
              assignment_name = ''hw1'',
              test_env_path = ''/home/prof/cs1/hw1/test_env.yaml''\<rparr>"

definition alice_submission :: Submission where
  "alice_submission = \<lparr>assignment_dir = hw1_dir, student = alice,
       student_repo_path = ''/home/alice/prof/cs1/hw1.git'',
       commit_hash = ''0a1b2c3'',
       faculty_username = ''prof'',
       faculty_email = ''prof@school.edu''\<rparr>"

definition host_env :: TestEnv where
  "host_env = \<lparr>type = HOST, container_image = [], append_args = None\<rparr>"

definition ok_ext :: ext where
  "ok_ext = \<lparr>config = \<lparr>tester_user = ''tester'', keeper_group = ''keeper'',
                         tests_timeout = 300, tests_memory_limit = 1024\<rparr>,
              user_home_dir = (\<lambda>u. ''/home/'' @ u),
              parse_submission_repo_path = (\<lambda>p. Inr (''prof'', ''cs1'', ''hw1'')),
              class_is_open = (\<lambda>c f. True),
              is_disabled = (\<lambda>c a f. False),
              time = 15,
              strftime = (\<lambda>f. ''2017-07-14_02-40-00-UTC''),
              mkdtemp_result = (\<lambda>d p. Inr (os_path_join d (p @ ''k3x''))),
              TestEnv_result = (\<lambda>p. Inr host_env),
              get_action_script_and_interpreter = (\<lambda>p. (Some ''action.sh'', Some ''bash'')),
              TemporaryDirectory_name = ''/tmp/tmpq'',
              run_command_result = (\<lambda>c. Inr ''All tests passed''),
              reports_clone_result = (\<lambda>p. Inr ''/tmp/wc/reports''),
              outcome = (\<lambda>c. None)\<rparr>"

definition empty_world :: world where
  "empty_world = \<lparr>emails = [], scans = [], spawned = [], calls = [], dirs = [], files = []\<rparr>"



definition clone_fails_ext :: ext where
  "clone_fails_ext = ok_ext\<lparr>outcome :=
     (\<lambda>c. case c of GitClone _ _ \<Rightarrow> Some (OtherException ''fatal: repository not found'')
                   | _ \<Rightarrow> None)\<rparr>"

definition tests_crash_ext :: ext where
  "tests_crash_ext = ok_ext\<lparr>run_command_result :=
     (\<lambda>c. Inl (OtherException ''sudo: unknown user: tester''))\<rparr>"

definition no_script_ext :: ext where
  "no_script_ext = ok_ext\<lparr>get_action_script_and_interpreter := (\<lambda>p. (None, None))\<rparr>"

definition vm_env :: TestEnv where
  "vm_env = \<lparr>type = UNKNOWN ''vm'', container_image = [], append_args = None\<rparr>"

definition unknown_env_ext :: ext where
  "unknown_env_ext = ok_ext\<lparr>TestEnv_result := (\<lambda>p. Inr vm_env)\<rparr>"

definition chown_fails_ext :: ext where
  "chown_fails_ext = ok_ext\<lparr>outcome :=
     (\<lambda>c. case c of SudoChown _ _ _ \<Rightarrow> Some (OtherException ''chown: invalid user'')
                   | _ \<Rightarrow> None)\<rparr>"

definition unknown_env_no_script_ext :: ext where
  "unknown_env_no_script_ext =
     unknown_env_ext\<lparr>get_action_script_and_interpreter := (\<lambda>p. (None, None))\<rparr>"

definition prof :: Student where
  "prof = \<lparr>username = ''prof'', email_address = ''prof@school.edu'',
           last_name = ''Dodgson'', first_name = ''Charles''\<rparr>"

definition prof_submission :: Submission where
  "prof_submission = alice_submission\<lparr>student := prof,
       student_repo_path := ''/home/prof/prof/cs1/hw1.git''\<rparr>"

definition commit_fails_ext :: ext where
  "commit_fails_ext = ok_ext\<lparr>outcome :=
     (\<lambda>c. case c of GitCommit _ _ \<Rightarrow> Some (OtherException ''nothing to commit'')
                   | _ \<Rightarrow> None)\<rparr>"

subsection \<open>Names used in the statements\<close>

text \<open>
  The calls that only the Report Recorder makes: the working copy of the report
  repository is taken and released, the directory of the student is made, the changes
  are staged and committed. \<open>archive_calls\<close> are those among the calls of a world.
\<close>

fun is_archive_call :: "call \<Rightarrow> bool" where
  "is_archive_call (ReportsCloneEnter _) = True"
| "is_archive_call (ReportsCloneExit _) = True"
| "is_archive_call (Makedirs _) = True"
| "is_archive_call (GitAddAll _) = True"
| "is_archive_call (GitCommit _ _) = True"
| "is_archive_call _ = False"

definition archive_calls :: "world \<Rightarrow> call list" where
  "archive_calls w = filter is_archive_call (calls w)"

text \<open>
  The name of a report as the spec gives it,
  \<^verbatim>\<open>report-<YYYY-MM-DD_HH-MM-SS-TZ>[-<n>].txt\<close>: no suffix for \<open>n = 0\<close>, the suffix
  \<open>-n\<close> otherwise.
\<close>

definition spec_report_name :: "string \<Rightarrow> nat \<Rightarrow> string" where
  "spec_report_name ts n =
     (if n = 0 then ''report-'' @ ts @ ''.txt''
      else ''report-'' @ ts @ ''-'' @ str_nat n @ ''.txt'')"

subsection \<open>Predicates used in the proofs\<close>

text \<open>
  \<open>keeps g m\<close>: running \<open>m\<close> leaves the component \<open>g\<close> of the world as it was,
  however \<open>m\<close> ends. \<open>queues\<close> are the three components that no call into the file
  system changes. \<open>returns v m\<close>: when \<open>m\<close> returns, it returns \<open>v\<close>.
  \<open>fails m\<close>: \<open>m\<close> raises in every world.
\<close>

definition keeps :: "(world \<Rightarrow> 'b) \<Rightarrow> 'a io \<Rightarrow> bool" where
  "keeps g m = (\<forall>w. g (snd (m w)) = g w)"

definition queues ::
    "world \<Rightarrow> Email list \<times> (string \<times> string \<times> string \<times> string) list \<times> string list list" where
  "queues w = (emails w, scans w, spawned w)"

definition returns :: "'a \<Rightarrow> 'a io \<Rightarrow> bool" where
  "returns v m = (\<forall>w r w'. m w = (Inr r, w') \<longrightarrow> r = v)"

definition fails :: "'a io \<Rightarrow> bool" where
  "fails m = (\<forall>w. isl (fst (m w)))"

section \<open>Properties\<close>

subsection \<open>Evaluation lemmas\<close>

lemma str_int_15: "str_int 15 = ''15''"
  by (simp add: str_int_def str_nat.simps digit_char_def)

lemma str_int_300: "str_int 300 = ''300''"
  by (simp add: str_int_def str_nat.simps digit_char_def)

lemma str_int_1024: "str_int 1024 = ''1024''"
  by (simp add: str_int_def str_nat.simps digit_char_def)

lemma files_record_call [simp]: "files (record_call c w) = files w"
  by (simp add: record_call_def)

lemma read_file_put_file [simp]: "read_file (put_file p content w) p = Some content"
  by (simp add: read_file_def put_file_def)

lemma read_file_record_call [simp]: "read_file (record_call c w) p = read_file w p"
  by (simp add: read_file_def)


lemma template_format:
  \<open>format_py [(''cd_command'', cd), (''global_timeout'', t), (''global_memory_limit'', m),
              (''interpreter'', i), (''script_name'', s)] None template =
   Some (''#!/bin/bash'' @ nl @
         cd @ nl @
         ''GLOBAL_TIMEOUT='' @ t @ nl @
         ''GLOBAL_MEM_LIMIT_MB='' @ m @ nl @
         ''GLOBAL_MEM_LIMIT_KB=$(($GLOBAL_MEM_LIMIT_MB * 1024))'' @ nl @
         ''ulimit -v $GLOBAL_MEM_LIMIT_KB'' @ nl @
         ''trap 'kill -INT -$pid' INT'' @ nl @
         ''timeout $GLOBAL_TIMEOUT '' @ i @ '' '' @ s @ '' "$@" &'' @ nl @
         ''pid=$!'' @ nl @
         ''wait $pid'' @ nl)\<close>
  by (simp add: template_def nl_def)


lemma report_path_loop_stop:
  "\<not> path_exists w p \<Longrightarrow> report_path_loop w d ts counter p = p"
  by (simp add: report_path_loop.simps)

lemma report_path_loop_step:
  "path_exists w p \<Longrightarrow>
   report_path_loop w d ts counter p =
     report_path_loop w d ts (counter + 1)
       (os_path_join d (''report-'' @ ts @ ''-'' @ str_nat counter @ ''.txt''))"
  by (subst report_path_loop.simps) simp

lemma io_bind_world_cong: "w = w' \<Longrightarrow> io_bind m f w = io_bind m f w'"
  by simp

lemma io_then_world_cong: "w = w' \<Longrightarrow> io_then m n w = io_then m n w'"
  by simp

lemma io_try_world_cong: "w = w' \<Longrightarrow> io_try m h w = io_try m h w'"
  by simp

lemma with_lock_world_cong: "w = w' \<Longrightarrow> with_lock p m w = with_lock p m w'"
  by simp

lemma with_reports_clone_world_cong:
  "w = w' \<Longrightarrow> with_reports_clone x ad f w = with_reports_clone x ad f w'"
  by simp

lemmas world_congs = io_bind_world_cong io_then_world_cong io_try_world_cong
  with_lock_world_cong with_reports_clone_world_cong

lemma ok_ext_sel:
  "config ok_ext = \<lparr>tester_user = ''tester'', keeper_group = ''keeper'',
                         tests_timeout = 300, tests_memory_limit = 1024\<rparr>"
  "user_home_dir ok_ext u = ''/home/'' @ u"
  "parse_submission_repo_path ok_ext p = Inr (''prof'', ''cs1'', ''hw1'')"
  "class_is_open ok_ext c f = True"
  "is_disabled ok_ext c a f = False"
  "time ok_ext = 15"
  "strftime ok_ext fmt = ''2017-07-14_02-40-00-UTC''"
  "mkdtemp_result ok_ext d pre = Inr (os_path_join d (pre @ ''k3x''))"
  "TestEnv_result ok_ext p = Inr host_env"
  "get_action_script_and_interpreter ok_ext p = (Some ''action.sh'', Some ''bash'')"
  "TemporaryDirectory_name ok_ext = ''/tmp/tmpq''"
  "run_command_result ok_ext cmd = Inr ''All tests passed''"
  "reports_clone_result ok_ext p = Inr ''/tmp/wc/reports''"
  "outcome ok_ext cl = None"
  by (simp_all add: ok_ext_def)

lemmas run_eval =
  run_tests_def [THEN fun_cong] run_tests_prepare_def [THEN fun_cong]
  run_tests_try_def [THEN fun_cong] run_tests_make_command_def [THEN fun_cong]
  run_tests_completed_def [THEN fun_cong] run_tests_cleanup_def
  add_report_def [THEN fun_cong] with_reports_clone_def
  write_run_action_sh_def [THEN fun_cong] report_failure_def [THEN fun_cong]
  send_closed_email_def [THEN fun_cong] send_disabled_email_def [THEN fun_cong]
  io_bind_def io_then_def [THEN fun_cong] io_try_def io_lift_def io_return_def io_raise_def
  do_call_def do_call_fs_def record_call_def with_lock_def mkdtemp_def
  rm_def [THEN fun_cong] rm_tree_def
  mv_def [THEN fun_cong] mv_file_def write_file_def [THEN fun_cong] put_file_def
  makedirs_def [THEN fun_cong] run_command_def
  enqueue_email_def enqueue_submission_scan_def path_exists_def isdir_def below_def
  make_host_command_def make_docker_command_def make_firejail_command_def
  get_last_first_username_def os_path_join_def Let_def template_format
  report_path_loop_stop report_path_loop_step
  ok_ext_sel alice_submission_def alice_def hw1_dir_def host_env_def empty_world_def
  str_int_15 str_int_300 str_int_1024

subsection \<open>What a part of the run leaves unchanged\<close>

named_theorems keeps_intros

lemma keepsD: "keeps g m \<Longrightarrow> m w = (r, w') \<Longrightarrow> g w' = g w"
  by (metis keeps_def snd_conv)

lemma keeps_return [keeps_intros]: "keeps g (io_return v)"
  by (simp add: keeps_def io_return_def)

lemma keeps_raise [keeps_intros]: "keeps g (io_raise e)"
  by (simp add: keeps_def io_raise_def)

lemma keeps_lift [keeps_intros]: "keeps g (io_lift r)"
  by (simp add: keeps_def io_lift_def)

lemma keeps_bind [keeps_intros]:
  "keeps g m \<Longrightarrow> (\<And>v. keeps g (f v)) \<Longrightarrow> keeps g (io_bind m f)"
  by (auto simp: keeps_def io_bind_def split: prod.splits sum.splits)
     (metis snd_conv)+

lemma keeps_then [keeps_intros]: "keeps g m \<Longrightarrow> keeps g n \<Longrightarrow> keeps g (io_then m n)"
  by (simp add: io_then_def keeps_bind)

lemma keeps_try [keeps_intros]:
  "keeps g m \<Longrightarrow> (\<And>e. keeps g (h e)) \<Longrightarrow> keeps g (io_try m h)"
  by (auto simp: keeps_def io_try_def split: prod.splits sum.splits)
     (metis snd_conv)+

lemma keeps_if [keeps_intros]:
  "keeps g m \<Longrightarrow> keeps g n \<Longrightarrow> keeps g (if b then m else n)"
  by simp

lemma keeps_cond [keeps_intros]:
  "keeps g m \<Longrightarrow> keeps g n \<Longrightarrow> keeps g (\<lambda>w. if P w then m w else n w)"
  by (simp add: keeps_def)

lemma keeps_with_lock [keeps_intros]:
  "(\<And>c w. g (record_call (LockAcquire c) w) = g w) \<Longrightarrow>
   (\<And>c w. g (record_call (LockRelease c) w) = g w) \<Longrightarrow>
   keeps g m \<Longrightarrow> keeps g (with_lock p m)"
  by (auto simp: keeps_def with_lock_def split: prod.splits) (metis snd_conv)

lemma keeps_do_call [keeps_intros]:
  "(\<And>w. g (record_call c w) = g w) \<Longrightarrow> keeps g (do_call x c)"
  by (simp add: keeps_def do_call_def split: option.splits)

lemma keeps_do_call_fs [keeps_intros]:
  "(\<And>w. g (record_call c w) = g w) \<Longrightarrow> (\<And>w. g (f w) = g w) \<Longrightarrow> keeps g (do_call_fs x c f)"
  by (simp add: keeps_def do_call_fs_def split: option.splits)


lemma queues_record_call [simp]: "queues (record_call c w) = queues w"
  by (simp add: queues_def record_call_def)

lemma queues_put_file [simp]: "queues (put_file p content w) = queues w"
  by (simp add: queues_def put_file_def)

lemma queues_mv_file [simp]: "queues (mv_file src dst w) = queues w"
  by (simp add: queues_def mv_file_def split: option.splits)

lemma queues_rm_tree [simp]: "queues (rm_tree p w) = queues w"
  by (simp add: queues_def rm_tree_def)

lemma queues_dirs_update [simp]: "queues (w\<lparr>dirs := d\<rparr>) = queues w"
  by (simp add: queues_def)

lemma keeps_queues_mkdtemp: "keeps queues (mkdtemp x d pre)"
  by (simp add: keeps_def mkdtemp_def split: sum.splits)

lemma keeps_queues_write_run_action_sh: "keeps queues (write_run_action_sh x d t rp)"
proof (cases "get_action_script_and_interpreter x t")
  case (Pair s i)
  then show ?thesis
    unfolding write_run_action_sh_def Let_def write_file_def mv_def
    by (cases s; cases i) (auto simp: template_format intro!: keeps_intros)
qed

lemma keeps_queues_prepare: "keeps queues (run_tests_prepare x self a)"
  unfolding run_tests_prepare_def Let_def
  by (intro keeps_intros keeps_queues_mkdtemp keeps_queues_write_run_action_sh) simp_all

lemma keeps_queues_cleanup: "keeps queues (run_tests_cleanup x tp)"
  unfolding run_tests_cleanup_def rm_def
  by (intro keeps_intros) simp_all

lemma keeps_queues_with_reports_clone:
  "(\<And>p. keeps queues (f p)) \<Longrightarrow> keeps queues (with_reports_clone x ad f)"
  unfolding keeps_def with_reports_clone_def
  by (auto simp: do_call_def split: sum.splits prod.splits option.splits) (metis queues_record_call snd_conv)+

lemma keeps_queues_add_report: "keeps queues (add_report x self b)"
  unfolding add_report_def Let_def makedirs_def write_file_def
  by (intro keeps_queues_with_reports_clone keeps_intros) (simp_all add: keeps_def)

lemma keeps_run_command:
  "(\<And>w s. g (w\<lparr>spawned := s\<rparr>) = g w) \<Longrightarrow> keeps g (run_command x cmd)"
  by (simp add: keeps_def run_command_def)

lemma keeps_make_command:
  "(\<And>w s. g (w\<lparr>spawned := s\<rparr>) = g w) \<Longrightarrow>
   keeps g (run_tests_make_command x self tp a)"
  unfolding run_tests_make_command_def
  by (intro keeps_intros keeps_run_command) simp_all

lemma archive_calls_simps [simp]:
  "archive_calls (w\<lparr>spawned := s\<rparr>) = archive_calls w"
  "archive_calls (w\<lparr>emails := m\<rparr>) = archive_calls w"
  "archive_calls (w\<lparr>dirs := d\<rparr>) = archive_calls w"
  "archive_calls (put_file p content w) = archive_calls w"
  "archive_calls (mv_file src dst w) = archive_calls w"
  "archive_calls (rm_tree p w) = archive_calls w"
  "\<not> is_archive_call cl \<Longrightarrow> archive_calls (record_call cl w) = archive_calls w"
  by (simp_all add: archive_calls_def put_file_def mv_file_def rm_tree_def record_call_def
      split: option.splits)

lemma keeps_archive_mkdtemp: "keeps archive_calls (mkdtemp x d pre)"
  by (simp add: keeps_def mkdtemp_def split: sum.splits)

lemma keeps_archive_write_run_action_sh: "keeps archive_calls (write_run_action_sh x d t rp)"
proof (cases "get_action_script_and_interpreter x t")
  case (Pair s i)
  then show ?thesis
    unfolding write_run_action_sh_def Let_def write_file_def mv_def
    by (cases s; cases i) (auto simp: template_format intro!: keeps_intros)
qed

lemma keeps_archive_prepare: "keeps archive_calls (run_tests_prepare x self a)"
  unfolding run_tests_prepare_def Let_def
  by (intro keeps_intros keeps_archive_mkdtemp keeps_archive_write_run_action_sh) simp_all

lemma keeps_archive_cleanup: "keeps archive_calls (run_tests_cleanup x tp)"
  unfolding run_tests_cleanup_def rm_def
  by (intro keeps_intros) simp_all

subsection \<open>The shape of a run\<close>

lemma report_failure_eq:
  "report_failure a stu fe m w =
     (Inr (), w\<lparr>emails := emails w @ [failure_student_email a stu,
                                        failure_faculty_email a stu fe m]\<rparr>)"
  by (simp add: report_failure_def io_then_def io_bind_def enqueue_email_def)

lemma run_tests_open:
  assumes "parse_submission_repo_path x (student_repo_path self) = Inr (f, c, a)"
    and "class_is_open x c f" and "\<not> is_disabled x c a f"
  shows "run_tests x self w =
     (case run_tests_prepare x self a w of
        (Inl e, w1) \<Rightarrow> (Inl e, w1)
      | (Inr tp, w1) \<Rightarrow>
          (case run_tests_try x self f c a tp w1 of
             (Inl e, w2) \<Rightarrow>
               run_tests_cleanup x tp
                 (w2\<lparr>emails := emails w2 @ [failure_student_email a (student self),
                     failure_faculty_email a (student self) (faculty_email self) (str_exn e)]\<rparr>)
           | (Inr u, w2) \<Rightarrow> run_tests_cleanup x tp w2))"
  using assms
  by (simp add: run_tests_def io_bind_def io_then_def io_try_def io_lift_def report_failure_eq
      split: prod.splits sum.splits)

lemma cleanup_result:
  "fst (run_tests_cleanup x tp w) =
     (if isdir w tp then (case outcome x (Rm tp) of None \<Rightarrow> Inr () | Some e \<Rightarrow> Inl e)
      else Inr ())"
  by (simp add: run_tests_cleanup_def rm_def do_call_fs_def io_return_def split: option.splits)

lemma isdir_rm_tree: "\<not> isdir (rm_tree tp w) tp"
  by (simp add: isdir_def rm_tree_def below_def)

lemma cleanup_removes:
  "fst (run_tests_cleanup x tp w) = Inr () \<Longrightarrow> \<not> isdir (snd (run_tests_cleanup x tp w)) tp"
  by (simp add: run_tests_cleanup_def rm_def do_call_fs_def io_return_def isdir_rm_tree
      split: option.splits if_splits)

lemma returns_return: "returns v (io_return v)"
  by (simp add: returns_def io_return_def)

lemma returns_then: "returns v n \<Longrightarrow> returns v (io_then m n)"
  by (auto simp: returns_def io_then_def io_bind_def split: prod.splits sum.splits)

lemma returns_bind: "(\<And>u. returns v (f u)) \<Longrightarrow> returns v (io_bind m f)"
  by (auto simp: returns_def io_bind_def split: prod.splits sum.splits)

lemma io_bind_returns:
  assumes "io_bind m f w = (Inr r, w')" and "\<And>v. returns v (f v)"
  shows "\<exists>w0. m w = (Inr r, w0)"
  using assms
  by (auto simp: io_bind_def returns_def split: prod.splits sum.splits)

lemma prepare_path:
  assumes "run_tests_prepare x self a w = (Inr tp, w1)"
  shows "mkdtemp_result x (user_home_dir x (tester_user (config x))) (str_int (time x) @ ''_'')
           = Inr tp"
proof -
  have "\<exists>w0. mkdtemp x (user_home_dir x (tester_user (config x))) (str_int (time x) @ ''_'') w
            = (Inr tp, w0)"
    by (rule io_bind_returns [OF assms [unfolded run_tests_prepare_def]])
       (simp only: Let_def, intro returns_then returns_bind returns_return)
  then show ?thesis
    by (auto simp: mkdtemp_def split: sum.splits)
qed

lemma fails_then_right: "fails n \<Longrightarrow> fails (io_then m n)"
  by (auto simp: fails_def io_then_def io_bind_def split: prod.splits sum.splits)

lemma fails_bind_right: "(\<And>v. fails (f v)) \<Longrightarrow> fails (io_bind m f)"
  by (auto simp: fails_def io_bind_def split: prod.splits sum.splits)

lemma fails_then_left: "fails m \<Longrightarrow> fails (io_then m n)"
  by (auto simp: fails_def io_then_def io_bind_def split: prod.splits sum.splits)
     (metis fst_conv isl_def sum.disc(2))

lemma fails_if: "fails m \<Longrightarrow> fails n \<Longrightarrow> fails (if b then m else n)"
  by simp

lemma write_run_action_sh_no_script:
  assumes "fst (get_action_script_and_interpreter x t) = None
           \<or> snd (get_action_script_and_interpreter x t) = None"
  shows "write_run_action_sh x d t rp w = (Inl (GkeepException ''No valid action script found''), w)"
  using assms
  by (cases "get_action_script_and_interpreter x t")
     (auto simp: write_run_action_sh_def Let_def io_raise_def split: option.splits)

lemma prepare_fails_without_script:
  assumes "fst (get_action_script_and_interpreter x (tests_path (assignment_dir self))) = None
           \<or> snd (get_action_script_and_interpreter x (tests_path (assignment_dir self))) = None"
  shows "fails (run_tests_prepare x self a)"
proof -
  have gen: "fails (write_run_action_sh x d (tests_path (assignment_dir self)) rp)" for d rp
    by (simp add: fails_def write_run_action_sh_no_script [OF assms])
  show ?thesis
    unfolding run_tests_prepare_def Let_def
    by (intro fails_bind_right fails_then_right fails_then_left fails_if gen)
qed

lemma run_tests_completing:
  assumes "parse_submission_repo_path x (student_repo_path self) = Inr (f, c, a)"
    and "class_is_open x c f" and "\<not> is_disabled x c a f"
    and "run_tests_prepare x self a w = (Inr tp, w1)"
    and "run_tests_make_command x self tp a w1 = (Inr cmd, w2)"
    and "run_command x cmd w2 = (Inr out, w3)"
  shows "run_tests x self w =
     (case run_tests_completed x self f c a out w3 of
        (Inl e, w4) \<Rightarrow>
          run_tests_cleanup x tp
            (w4\<lparr>emails := emails w4 @ [failure_student_email a (student self),
                failure_faculty_email a (student self) (faculty_email self) (str_exn e)]\<rparr>)
      | (Inr u, w4) \<Rightarrow> run_tests_cleanup x tp w4)"
  using assms(4-6)
  by (simp add: run_tests_open [OF assms(1-3)] run_tests_try_def io_bind_def
      split: prod.splits sum.splits)

lemma before_completed:
  assumes "run_tests_prepare x self a w = (Inr tp, w1)"
    and "run_tests_make_command x self tp a w1 = (Inr cmd, w2)"
    and "run_command x cmd w2 = (Inr out, w3)"
  shows "emails w3 = emails w" and "scans w3 = scans w" and "archive_calls w3 = archive_calls w"
proof -
  have "queues w1 = queues w"
    using keeps_queues_prepare assms(1) by (rule keepsD)
  moreover have "emails w2 = emails w1"
    by (rule keepsD [OF keeps_make_command assms(2)]) simp
  moreover have "emails w3 = emails w2"
    using assms(3) by (auto simp: run_command_def)
  ultimately show "emails w3 = emails w"
    by (simp add: queues_def)
  have "queues w1 = queues w"
    using keeps_queues_prepare assms(1) by (rule keepsD)
  moreover have "scans w2 = scans w1"
    by (rule keepsD [OF keeps_make_command assms(2)]) simp
  moreover have "scans w3 = scans w2"
    using assms(3) by (auto simp: run_command_def)
  ultimately show "scans w3 = scans w"
    by (simp add: queues_def)
  have "archive_calls w1 = archive_calls w"
    using keeps_archive_prepare assms(1) by (rule keepsD)
  moreover have "archive_calls w2 = archive_calls w1"
    by (rule keepsD [OF keeps_make_command assms(2)]) simp
  moreover have "archive_calls w3 = archive_calls w2"
    using assms(3) by (auto simp: run_command_def)
  ultimately show "archive_calls w3 = archive_calls w"
    by simp
qed

lemma make_command_host:
  assumes "TestEnv_result x (test_env_path (assignment_dir self)) = Inr te"
    and "type te = HOST"
  shows "run_tests_make_command x self tp a w =
     (Inr (make_host_command x self (os_path_join tp ''run_action.sh'') (os_path_join tp a)), w)"
  using assms
  by (simp add: run_tests_make_command_def io_bind_def io_lift_def io_return_def)

lemma add_report_commit_raises:
  assumes "reports_clone_result x (reports_repo_path (assignment_dir self)) = Inr wc"
    and "\<And>p. outcome x (Makedirs p) = None"
    and "\<And>p. outcome x (OpenWrite p) = None"
    and "outcome x (GitAddAll wc) = None"
    and "outcome x (GitCommit wc (''Submission report for ''
           @ get_last_first_username (student self))) = Some e"
  shows "fst (add_report x self b w) = Inl e"
  using assms
  by (simp add: add_report_def with_reports_clone_def Let_def io_then_def io_bind_def
      makedirs_def write_file_def do_call_fs_def do_call_def)

lemma completed_raises:
  assumes "username (student self) \<noteq> f"
    and "\<And>v. fst (add_report x self out v) = Inl e"
  shows "fst (run_tests_completed x self f c a out w) = Inl e"
proof -
  let ?v = "record_call (LockAcquire (path (assignment_dir self)))
              (w\<lparr>emails := emails w @ [result_email self c a out]\<rparr>)"
  obtain r w' where ar: "add_report x self out ?v = (r, w')"
    by (cases "add_report x self out ?v")
  with assms(2) [of ?v] have "r = Inl e"
    by simp
  with ar assms(1) show ?thesis
    by (simp add: run_tests_completed_def io_then_def io_bind_def enqueue_email_def
        with_lock_def)
qed

subsection \<open>The sandbox command builders\<close>

text \<open>
  C9, as the spec states it, fails: the trailing arguments of the three commands are not
  identical. The execution path of the assignment is a different string in each: it lies
  below the mount point in the container, below the temporary directory on the host,
  below the home of the tester inside firejail.
\<close>

theorem sandbox_execution_paths_differ_counterexample:
  "drop (length (make_docker_command alice_submission ''/home/tester/15_k3x'' ''hw1''
                   ''python:3'') - 5)
     (make_docker_command alice_submission ''/home/tester/15_k3x'' ''hw1'' ''python:3'')
   = [''/git-keeper-tester/hw1'', ''alice'', ''alice@school.edu'', ''Liddell'', ''Alice'']
   \<and> drop (length (make_host_command ok_ext alice_submission
                      ''/home/tester/15_k3x/run_action.sh'' ''/home/tester/15_k3x/hw1'') - 5)
     (make_host_command ok_ext alice_submission
        ''/home/tester/15_k3x/run_action.sh'' ''/home/tester/15_k3x/hw1'')
   = [''/home/tester/15_k3x/hw1'', ''alice'', ''alice@school.edu'', ''Liddell'', ''Alice'']
   \<and> drop (length (make_firejail_command ok_ext alice_submission ''/home/tester/15_k3x''
                      ''hw1'' None) - 5)
     (make_firejail_command ok_ext alice_submission ''/home/tester/15_k3x'' ''hw1'' None)
   = [''/home/tester/hw1'', ''alice'', ''alice@school.edu'', ''Liddell'', ''Alice'']
   \<and> drop (length (make_docker_command alice_submission ''/home/tester/15_k3x'' ''hw1''
                      ''python:3'') - 5)
     (make_docker_command alice_submission ''/home/tester/15_k3x'' ''hw1'' ''python:3'')
   \<noteq> drop (length (make_host_command ok_ext alice_submission
                      ''/home/tester/15_k3x/run_action.sh'' ''/home/tester/15_k3x/hw1'') - 5)
     (make_host_command ok_ext alice_submission
        ''/home/tester/15_k3x/run_action.sh'' ''/home/tester/15_k3x/hw1'')
   \<and> drop (length (make_host_command ok_ext alice_submission
                      ''/home/tester/15_k3x/run_action.sh'' ''/home/tester/15_k3x/hw1'') - 5)
     (make_host_command ok_ext alice_submission
        ''/home/tester/15_k3x/run_action.sh'' ''/home/tester/15_k3x/hw1'')
   \<noteq> drop (length (make_firejail_command ok_ext alice_submission ''/home/tester/15_k3x''
                      ''hw1'' None) - 5)
     (make_firejail_command ok_ext alice_submission ''/home/tester/15_k3x'' ''hw1'' None)"
  by (simp add: make_docker_command_def make_host_command_def make_firejail_command_def
      os_path_join_def Let_def ok_ext_sel alice_submission_def alice_def)

text \<open>
  C9, amended. Each of the three commands consists of the words that set up the sandbox,
  then \<^verbatim>\<open>bash\<close>, the generated \<^verbatim>\<open>run_action.sh\<close> and the execution path of the assignment,
  then the student's username, email address, last name and first name, in that order.
  The last four words are identical in the three commands. The script and the execution
  path are named below the directory under which the sandbox sees the temporary
  directory, and the words that set up the sandbox say which one that is:
  \<^verbatim>\<open>-v <temp_path>:/git-keeper-tester\<close> mounts it at \<^verbatim>\<open>/git-keeper-tester\<close> in the
  container, \<^verbatim>\<open>--private=<temp_path>\<close> makes it the home of the tester inside firejail,
  and on the host it is the temporary directory itself. The host builder is called as
  \<^verbatim>\<open>run_tests\<close> calls it.
\<close>

theorem sandbox_commands_trailing_arguments:
  \<open>make_docker_command self temp_path a img =
      [''docker'', ''run'', ''-v'', temp_path @ '':'' @ ''/git-keeper-tester'', img]
      @ [''bash'', os_path_join ''/git-keeper-tester'' ''run_action.sh'',
         os_path_join ''/git-keeper-tester'' a]
      @ [username (student self), email_address (student self),
         last_name (student self), first_name (student self)]
   \<and> make_host_command x self (os_path_join temp_path ''run_action.sh'')
        (os_path_join temp_path a) =
      [''sudo'', ''--user'', tester_user (config x), ''--set-home'']
      @ [''bash'', os_path_join temp_path ''run_action.sh'', os_path_join temp_path a]
      @ [username (student self), email_address (student self),
         last_name (student self), first_name (student self)]
   \<and> make_firejail_command x self temp_path a app =
      [''sudo'', ''--user'', tester_user (config x), ''--set-home'',
       ''firejail'', ''--noprofile'', ''--quiet'', ''--private='' @ temp_path]
      @ (case app of None \<Rightarrow> [] | Some extra \<Rightarrow> split_py extra)
      @ [''bash'', os_path_join (user_home_dir x (tester_user (config x))) ''run_action.sh'',
         os_path_join (user_home_dir x (tester_user (config x))) a]
      @ [username (student self), email_address (student self),
         last_name (student self), first_name (student self)]
   \<and> drop (length (make_docker_command self temp_path a img) - 4)
          (make_docker_command self temp_path a img) =
       drop (length (make_host_command x self (os_path_join temp_path ''run_action.sh'')
                       (os_path_join temp_path a)) - 4)
          (make_host_command x self (os_path_join temp_path ''run_action.sh'')
             (os_path_join temp_path a))
   \<and> drop (length (make_host_command x self (os_path_join temp_path ''run_action.sh'')
                      (os_path_join temp_path a)) - 4)
          (make_host_command x self (os_path_join temp_path ''run_action.sh'')
             (os_path_join temp_path a)) =
       drop (length (make_firejail_command x self temp_path a app) - 4)
          (make_firejail_command x self temp_path a app)\<close>
  by (simp add: make_docker_command_def make_host_command_def make_firejail_command_def
      os_path_join_def Let_def split: option.split list.split)

subsection \<open>The run-script generator\<close>



subsection \<open>The precondition check\<close>



subsection \<open>The failure boundary\<close>

text \<open>
  C1, as the spec states it, fails: a clone that raises is not caught. The exception
  leaves \<^verbatim>\<open>run_tests\<close> and no email is enqueued.
\<close>

theorem clone_failure_escapes_counterexample:
  "fst (run_tests clone_fails_ext alice_submission empty_world) =
     Inl (OtherException ''fatal: repository not found'')
   \<and> emails (snd (run_tests clone_fails_ext alice_submission empty_world)) = []"
  by (simp add: clone_fails_ext_def run_eval cong: world_congs)

text \<open>
  C1, amended. An exception raised inside the \<^verbatim>\<open>try\<close> block (resolving the environment,
  the image pull, an unknown environment type, the test command, the archiving of the
  report) is caught: the two messages of the Failure Reporter, the second with
  \<^verbatim>\<open>str(e)\<close>, are put on the email queue, and \<^verbatim>\<open>run_tests\<close> goes on to the cleanup, whose
  result is the result of the run: it returns unless the removal of the temporary
  directory raises.
\<close>

theorem failure_boundary_of_try_block:
  assumes "parse_submission_repo_path x (student_repo_path self) = Inr (f, c, a)"
    and "class_is_open x c f" and "\<not> is_disabled x c a f"
    and "run_tests_prepare x self a w = (Inr tp, w1)"
    and "run_tests_try x self f c a tp w1 = (Inl e, w2)"
  shows "emails (snd (run_tests x self w)) =
           emails w2 @ [failure_student_email a (student self),
                        failure_faculty_email a (student self) (faculty_email self) (str_exn e)]
       \<and> fst (run_tests x self w) =
           (if isdir w2 tp then (case outcome x (Rm tp) of None \<Rightarrow> Inr () | Some e' \<Rightarrow> Inl e')
            else Inr ())"
proof -
  let ?w3 = "w2\<lparr>emails := emails w2 @ [failure_student_email a (student self),
                 failure_faculty_email a (student self) (faculty_email self) (str_exn e)]\<rparr>"
  have run: "run_tests x self w = run_tests_cleanup x tp ?w3"
    using assms by (simp add: run_tests_open)
  have "queues (snd (run_tests_cleanup x tp ?w3)) = queues ?w3"
    using keeps_queues_cleanup by (simp add: keeps_def)
  then have "emails (snd (run_tests x self w)) = emails ?w3"
    by (simp add: run queues_def)
  moreover have "isdir ?w3 tp = isdir w2 tp"
    by (simp add: isdir_def)
  ultimately show ?thesis
    by (simp add: run cleanup_result)
qed

text \<open>The test command cannot be started: both messages are enqueued, the run returns.\<close>

theorem failure_boundary_of_try_block_witness:
  "emails (snd (run_tests tests_crash_ext alice_submission empty_world)) =
     [failure_student_email ''hw1'' alice,
      failure_faculty_email ''hw1'' alice ''prof@school.edu'' ''sudo: unknown user: tester'']
   \<and> fst (run_tests tests_crash_ext alice_submission empty_world) = Inr ()"
proof -
  let ?x = tests_crash_ext
  let ?tp = "''/home/tester/15_k3x''"
  let ?w1 = "snd (run_tests_prepare ?x alice_submission ''hw1'' empty_world)"
  let ?w2 = "snd (run_tests_try ?x alice_submission ''prof'' ''cs1'' ''hw1'' ?tp ?w1)"
  have parse: "parse_submission_repo_path ?x (student_repo_path alice_submission) =
      Inr (''prof'', ''cs1'', ''hw1'')"
    and opn: "class_is_open ?x ''cs1'' ''prof''"
    and ena: "\<not> is_disabled ?x ''cs1'' ''hw1'' ''prof''"
    by (simp_all add: tests_crash_ext_def ok_ext_def)
  have prep: "run_tests_prepare ?x alice_submission ''hw1'' empty_world = (Inr ?tp, ?w1)"
    by (simp add: tests_crash_ext_def run_eval cong: world_congs)
  have tried: "run_tests_try ?x alice_submission ''prof'' ''cs1'' ''hw1'' ?tp ?w1 =
      (Inl (OtherException ''sudo: unknown user: tester''), ?w2)"
    by (simp add: tests_crash_ext_def run_eval cong: world_congs)
  have w2: "emails ?w2 = []" "isdir ?w2 ?tp" "outcome ?x (Rm ?tp) = None"
    by (simp_all add: tests_crash_ext_def run_eval cong: world_congs)
  from failure_boundary_of_try_block [OF parse opn ena prep tried] w2
  show ?thesis
    by (simp add: alice_submission_def)
qed

subsection \<open>Cleanup\<close>

text \<open>
  C2, as the spec states it, fails: when the change of the owner raises, after
  \<^verbatim>\<open>mkdtemp\<close> has made the directory and before the \<^verbatim>\<open>try\<close> block, the exception leaves
  \<^verbatim>\<open>run_tests\<close> and the directory is still there.
\<close>

theorem chown_failure_leaves_directory_counterexample:
  "fst (run_tests chown_fails_ext alice_submission empty_world) =
     Inl (OtherException ''chown: invalid user'')
   \<and> isdir (snd (run_tests chown_fails_ext alice_submission empty_world))
         ''/home/tester/15_k3x''"
  by (simp add: chown_fails_ext_def run_eval cong: world_congs)

text \<open>
  C2, amended. In a run whose Prepared step completes, so that the \<^verbatim>\<open>try\<close> block is
  reached with the directory that \<^verbatim>\<open>mkdtemp\<close> made, and in which the removal of that
  directory does not raise, \<^verbatim>\<open>run_tests\<close> returns and the directory is no longer a
  directory of the file system. This holds on every branch from there: the completion of
  a student's run, of the faculty's run, and the run in which the failure boundary
  caught an exception.
\<close>

theorem temporary_directory_removed:
  assumes "parse_submission_repo_path x (student_repo_path self) = Inr (f, c, a)"
    and "class_is_open x c f" and "\<not> is_disabled x c a f"
    and "run_tests_prepare x self a w = (Inr tp, w1)"
    and "outcome x (Rm tp) = None"
  shows "mkdtemp_result x (user_home_dir x (tester_user (config x))) (str_int (time x) @ ''_'')
           = Inr tp
       \<and> fst (run_tests x self w) = Inr ()
       \<and> \<not> isdir (snd (run_tests x self w)) tp"
proof -
  obtain w3 where run: "run_tests x self w = run_tests_cleanup x tp w3"
    using run_tests_open [OF assms(1-3), of w] assms(4)
    by (cases "run_tests_try x self f c a tp w1") (auto split: sum.splits)
  have ret: "fst (run_tests_cleanup x tp w3) = Inr ()"
    using assms(5) by (simp add: cleanup_result)
  then have "\<not> isdir (snd (run_tests_cleanup x tp w3)) tp"
    by (rule cleanup_removes)
  with ret run prepare_path [OF assms(4)] show ?thesis
    by simp
qed

text \<open>
  A run in which the failure boundary caught the exception of the test command, the
  completed run of a student and the completed run of the faculty.
\<close>

theorem temporary_directory_removed_witness:
  "fst (run_tests tests_crash_ext alice_submission empty_world) = Inr ()
   \<and> \<not> isdir (snd (run_tests tests_crash_ext alice_submission empty_world))
         ''/home/tester/15_k3x''
   \<and> fst (run_tests ok_ext alice_submission empty_world) = Inr ()
   \<and> \<not> isdir (snd (run_tests ok_ext alice_submission empty_world)) ''/home/tester/15_k3x''
   \<and> fst (run_tests ok_ext prof_submission empty_world) = Inr ()
   \<and> \<not> isdir (snd (run_tests ok_ext prof_submission empty_world)) ''/home/tester/15_k3x''"
proof -
  let ?tp = "''/home/tester/15_k3x''"
  have crash: "run_tests_prepare tests_crash_ext alice_submission ''hw1'' empty_world =
      (Inr ?tp, snd (run_tests_prepare tests_crash_ext alice_submission ''hw1'' empty_world))"
    by (simp add: tests_crash_ext_def run_eval cong: world_congs)
  have student: "run_tests_prepare ok_ext alice_submission ''hw1'' empty_world =
      (Inr ?tp, snd (run_tests_prepare ok_ext alice_submission ''hw1'' empty_world))"
    by (simp add: run_eval cong: world_congs)
  have faculty: "run_tests_prepare ok_ext prof_submission ''hw1'' empty_world =
      (Inr ?tp, snd (run_tests_prepare ok_ext prof_submission ''hw1'' empty_world))"
    by (simp add: prof_submission_def prof_def run_eval cong: world_congs)
  have a: "fst (run_tests tests_crash_ext alice_submission empty_world) = Inr ()
      \<and> \<not> isdir (snd (run_tests tests_crash_ext alice_submission empty_world)) ?tp"
    using temporary_directory_removed [OF _ _ _ crash, of "''prof''" "''cs1''"]
    by (simp add: tests_crash_ext_def ok_ext_sel)
  have b: "fst (run_tests ok_ext alice_submission empty_world) = Inr ()
      \<and> \<not> isdir (snd (run_tests ok_ext alice_submission empty_world)) ?tp"
    using temporary_directory_removed [OF _ _ _ student, of "''prof''" "''cs1''"]
    by (simp add: ok_ext_sel)
  have c: "fst (run_tests ok_ext prof_submission empty_world) = Inr ()
      \<and> \<not> isdir (snd (run_tests ok_ext prof_submission empty_world)) ?tp"
    using temporary_directory_removed [OF _ _ _ faculty, of "''prof''" "''cs1''"]
    by (simp add: ok_ext_sel)
  from a b c show ?thesis
    by simp
qed

subsection \<open>A missing action script\<close>

text \<open>
  C3, as the spec states it, fails in its last part: the exception of
  \<^verbatim>\<open>write_run_action_sh\<close> is raised before the \<^verbatim>\<open>try\<close> block, so it leaves
  \<^verbatim>\<open>run_tests\<close> and the Failure Reporter is not invoked.
\<close>

theorem missing_action_script_counterexample:
  "fst (run_tests no_script_ext alice_submission empty_world) =
     Inl (GkeepException ''No valid action script found'')
   \<and> emails (snd (run_tests no_script_ext alice_submission empty_world)) = []"
  by (simp add: no_script_ext_def run_eval cong: world_congs)

text \<open>
  C3, amended. When no action script or no interpreter is found,
  \<^verbatim>\<open>write_run_action_sh\<close> raises \<^verbatim>\<open>GkeepException\<close> and leaves the world as it was
  (nothing written, nothing moved), and no command is spawned in the whole run.
\<close>

theorem missing_action_script_raises:
  assumes "parse_submission_repo_path x (student_repo_path self) = Inr (f, c, a)"
    and "class_is_open x c f" and "\<not> is_disabled x c a f"
    and "fst (get_action_script_and_interpreter x (tests_path (assignment_dir self))) = None
         \<or> snd (get_action_script_and_interpreter x (tests_path (assignment_dir self))) = None"
  shows "write_run_action_sh x d (tests_path (assignment_dir self)) rp w' =
           (Inl (GkeepException ''No valid action script found''), w')
       \<and> spawned (snd (run_tests x self w)) = spawned w"
proof -
  obtain r w1 where prep: "run_tests_prepare x self a w = (r, w1)"
    by (cases "run_tests_prepare x self a w")
  with prepare_fails_without_script [OF assms(4), of a] obtain e where r: "r = Inl e"
    by (auto simp: fails_def isl_def dest: spec [of _ w])
  have run: "run_tests x self w = (Inl e, w1)"
    using prep r by (simp add: run_tests_open [OF assms(1-3)])
  have "queues w1 = queues w"
    using keeps_queues_prepare prep by (rule keepsD)
  with run show ?thesis
    by (simp add: queues_def write_run_action_sh_no_script [OF assms(4)])
qed

theorem missing_action_script_raises_witness:
  "write_run_action_sh no_script_ext ''/home/tester/15_k3x/run_action.sh''
       ''/home/prof/cs1/hw1/tests'' (Some ''/home/tester/15_k3x'') empty_world =
     (Inl (GkeepException ''No valid action script found''), empty_world)
   \<and> spawned (snd (run_tests no_script_ext alice_submission empty_world)) = []"
  using missing_action_script_raises [of no_script_ext alice_submission "''prof''" "''cs1''" "''hw1''"
      "''/home/tester/15_k3x/run_action.sh''" "Some ''/home/tester/15_k3x''" empty_world empty_world]
  by (simp add: no_script_ext_def ok_ext_sel alice_submission_def hw1_dir_def empty_world_def)

subsection \<open>An unknown environment type\<close>

text \<open>
  C4, as the spec states it, fails: with an unknown environment type and no action
  script, the exception of \<^verbatim>\<open>write_run_action_sh\<close> leaves \<^verbatim>\<open>run_tests\<close> before the
  \<^verbatim>\<open>try\<close> block and the Failure Reporter is not invoked.
\<close>

theorem unknown_environment_without_script_counterexample:
  "fst (run_tests unknown_env_no_script_ext alice_submission empty_world) =
     Inl (GkeepException ''No valid action script found'')
   \<and> emails (snd (run_tests unknown_env_no_script_ext alice_submission empty_world)) = []"
  by (simp add: unknown_env_no_script_ext_def unknown_env_ext_def vm_env_def run_eval
      cong: world_congs)

text \<open>
  C4, amended. When the environment descriptor of the assignment has a type that is none
  of host, firejail and docker, no command is spawned in the whole run; and when the
  Prepared step completes, so that the \<^verbatim>\<open>try\<close> block is reached, the Failure Reporter is
  invoked once: the emails of the run are the apology to the student's address and the
  diagnostic to the faculty's address with the text "Unknown test env type" and the type.
\<close>

theorem unknown_environment_reported_once:
  assumes "parse_submission_repo_path x (student_repo_path self) = Inr (f, c, a)"
    and "class_is_open x c f" and "\<not> is_disabled x c a f"
    and "TestEnv_result x (test_env_path (assignment_dir self)) = Inr te"
    and "type te = UNKNOWN s"
  shows "spawned (snd (run_tests x self w)) = spawned w
       \<and> (\<not> isl (fst (run_tests_prepare x self a w)) \<longrightarrow>
            emails (snd (run_tests x self w)) =
              emails w @
              [\<lparr>to_address = email_address (student self),
                subject = a @ '': Failed to process submission - contact instructor'',
                body = Lines [''Your submission was received, but something went wrong.'',
                              ''This is likely your instructor'' @ [CHR 0x27]
                                @ ''s fault, not yours.'',
                              ''Please contact your instructor about this error!''],
                html_pre_body = False\<rparr>,
               \<lparr>to_address = faculty_email self,
                subject = ''git-keeper run_tests failure'',
                body = Lines [''student: '' @ first_name (student self) @ '' ''
                                @ last_name (student self),
                              ''email: '' @ email_address (student self),
                              ''assignment '' @ a,
                              ''further information:'',
                              ''Unknown test env type '' @ s],
                html_pre_body = False\<rparr>])"
proof (cases "run_tests_prepare x self a w")
  case (Pair r w1)
  have frame: "queues w1 = queues w"
    using keeps_queues_prepare Pair by (rule keepsD)
  show ?thesis
  proof (cases r)
    case (Inl e)
    with Pair have "run_tests x self w = (Inl e, w1)"
      by (simp add: run_tests_open [OF assms(1-3)])
    with Pair Inl frame show ?thesis
      by (simp add: queues_def)
  next
    case (Inr tp)
    let ?e = "GkeepException (''Unknown test env type '' @ s)"
    let ?w3 = "w1\<lparr>emails := emails w1 @ [failure_student_email a (student self),
                   failure_faculty_email a (student self) (faculty_email self) (str_exn ?e)]\<rparr>"
    have tried: "run_tests_try x self f c a tp w1 = (Inl ?e, w1)"
      using assms(4,5)
      by (simp add: run_tests_try_def run_tests_make_command_def io_bind_def io_lift_def
          io_raise_def)
    have run: "run_tests x self w = run_tests_cleanup x tp ?w3"
      using Pair Inr tried by (simp add: run_tests_open [OF assms(1-3)])
    have "queues (snd (run_tests_cleanup x tp ?w3)) = queues ?w3"
      using keeps_queues_cleanup by (simp add: keeps_def)
    with frame show ?thesis
      by (simp add: run queues_def failure_student_email_def failure_faculty_email_def)
  qed
qed

theorem unknown_environment_reported_once_witness:
  "spawned (snd (run_tests unknown_env_ext alice_submission empty_world)) = []
   \<and> emails (snd (run_tests unknown_env_ext alice_submission empty_world)) =
       [\<lparr>to_address = ''alice@school.edu'',
         subject = ''hw1: Failed to process submission - contact instructor'',
         body = Lines [''Your submission was received, but something went wrong.'',
                       ''This is likely your instructor'' @ [CHR 0x27] @ ''s fault, not yours.'',
                       ''Please contact your instructor about this error!''],
         html_pre_body = False\<rparr>,
        \<lparr>to_address = ''prof@school.edu'',
         subject = ''git-keeper run_tests failure'',
         body = Lines [''student: Alice Liddell'',
                       ''email: alice@school.edu'',
                       ''assignment hw1'',
                       ''further information:'',
                       ''Unknown test env type vm''],
         html_pre_body = False\<rparr>]"
proof -
  let ?x = unknown_env_ext
  have parse: "parse_submission_repo_path ?x (student_repo_path alice_submission) =
      Inr (''prof'', ''cs1'', ''hw1'')"
    and opn: "class_is_open ?x ''cs1'' ''prof''"
    and ena: "\<not> is_disabled ?x ''cs1'' ''hw1'' ''prof''"
    and env: "TestEnv_result ?x (test_env_path (assignment_dir alice_submission)) = Inr vm_env"
    and ty: "type vm_env = UNKNOWN ''vm''"
    by (simp_all add: unknown_env_ext_def ok_ext_sel vm_env_def)
  have prep: "\<not> isl (fst (run_tests_prepare ?x alice_submission ''hw1'' empty_world))"
    by (simp add: unknown_env_ext_def vm_env_def run_eval cong: world_congs)
  from unknown_environment_reported_once [OF parse opn ena env ty, of empty_world] prep
  show ?thesis
    by (simp add: alice_submission_def alice_def empty_world_def)
qed

subsection \<open>A submission of the faculty\<close>

text \<open>
  C5. In a run that gets as far as the output of the test command, when the student who
  submits is the faculty of the repository path, the rest of the \<^verbatim>\<open>try\<close> block does one
  thing: it puts the result email on the queue, addressed to the email address of the
  one who submitted, with the subject of the class and the assignment and the output of
  the tests as its body. The run then only cleans up. Over the whole run, the result
  email is the one email enqueued, no scan notification is enqueued, and the Report
  Recorder makes no call: no report is written. So a report is written only for a
  student who is not the faculty.
\<close>

theorem faculty_owner_gets_no_report:
  assumes "parse_submission_repo_path x (student_repo_path self) = Inr (f, c, a)"
    and "class_is_open x c f" and "\<not> is_disabled x c a f"
    and "run_tests_prepare x self a w = (Inr tp, w1)"
    and "run_tests_make_command x self tp a w1 = (Inr cmd, w2)"
    and "run_command x cmd w2 = (Inr out, w3)"
    and "username (student self) = f"
  shows "run_tests_completed x self f c a out w3 =
           (Inr (), w3\<lparr>emails := emails w3 @
              [\<lparr>to_address = email_address (student self),
                subject = ''['' @ c @ ''] '' @ a @ '' submission test results'',
                body = Text out, html_pre_body = True\<rparr>]\<rparr>)
       \<and> run_tests x self w =
           run_tests_cleanup x tp (w3\<lparr>emails := emails w3 @
              [\<lparr>to_address = email_address (student self),
                subject = ''['' @ c @ ''] '' @ a @ '' submission test results'',
                body = Text out, html_pre_body = True\<rparr>]\<rparr>)
       \<and> emails (snd (run_tests x self w)) =
           emails w @
              [\<lparr>to_address = email_address (student self),
                subject = ''['' @ c @ ''] '' @ a @ '' submission test results'',
                body = Text out, html_pre_body = True\<rparr>]
       \<and> scans (snd (run_tests x self w)) = scans w
       \<and> archive_calls (snd (run_tests x self w)) = archive_calls w"
proof -
  let ?w4 = "w3\<lparr>emails := emails w3 @ [result_email self c a out]\<rparr>"
  have fin: "run_tests_completed x self f c a out w3 = (Inr (), ?w4)"
    using assms(7)
    by (simp add: run_tests_completed_def io_then_def io_bind_def enqueue_email_def io_return_def)
  then have run: "run_tests x self w = run_tests_cleanup x tp ?w4"
    by (simp add: run_tests_completing [OF assms(1-6)])
  have "queues (snd (run_tests_cleanup x tp ?w4)) = queues ?w4"
    and "archive_calls (snd (run_tests_cleanup x tp ?w4)) = archive_calls ?w4"
    using keeps_queues_cleanup keeps_archive_cleanup by (simp_all add: keeps_def)
  with before_completed [OF assms(4-6)] fin run show ?thesis
    by (simp add: queues_def result_email_def)
qed

theorem faculty_owner_gets_no_report_witness:
  "emails (snd (run_tests ok_ext prof_submission empty_world)) =
     [\<lparr>to_address = ''prof@school.edu'',
       subject = ''[cs1] hw1 submission test results'',
       body = Text ''All tests passed'', html_pre_body = True\<rparr>]
   \<and> scans (snd (run_tests ok_ext prof_submission empty_world)) = []
   \<and> archive_calls (snd (run_tests ok_ext prof_submission empty_world)) = []"
proof -
  let ?tp = "''/home/tester/15_k3x''"
  let ?w1 = "snd (run_tests_prepare ok_ext prof_submission ''hw1'' empty_world)"
  let ?cmd = "make_host_command ok_ext prof_submission (os_path_join ?tp ''run_action.sh'')
                (os_path_join ?tp ''hw1'')"
  have parse: "parse_submission_repo_path ok_ext (student_repo_path prof_submission) =
      Inr (''prof'', ''cs1'', ''hw1'')"
    and opn: "class_is_open ok_ext ''cs1'' ''prof''"
    and ena: "\<not> is_disabled ok_ext ''cs1'' ''hw1'' ''prof''"
    and env: "TestEnv_result ok_ext (test_env_path (assignment_dir prof_submission)) = Inr host_env"
    and ty: "type host_env = HOST"
    and usr: "username (student prof_submission) = ''prof''"
    by (simp_all add: ok_ext_sel host_env_def prof_submission_def prof_def)
  have prep: "run_tests_prepare ok_ext prof_submission ''hw1'' empty_world = (Inr ?tp, ?w1)"
    by (simp add: prof_submission_def prof_def run_eval cong: world_congs)
  have mk: "run_tests_make_command ok_ext prof_submission ?tp ''hw1'' ?w1 = (Inr ?cmd, ?w1)"
    using env ty by (rule make_command_host)
  have rc: "run_command ok_ext ?cmd ?w1 =
      (Inr ''All tests passed'', ?w1\<lparr>spawned := spawned ?w1 @ [?cmd]\<rparr>)"
    by (simp only: run_command_def ok_ext_sel)
  from faculty_owner_gets_no_report [OF parse opn ena prep mk rc usr, THEN conjunct2,
      THEN conjunct2]
  show ?thesis
    by (simp add: empty_world_def archive_calls_def prof_submission_def prof_def
        alice_submission_def)
qed

subsection \<open>A failure of the Report Recorder\<close>

text \<open>
  C10. In a run that gets as far as the output of the test command, when the rest of the
  \<^verbatim>\<open>try\<close> block raises, the student is not the faculty and it is \<^verbatim>\<open>_add_report\<close> that
  raised; the result email, addressed to the student with the output of the tests, is
  on the queue at that point, and at the end of the run the emails of the run are, in
  this order, the result email to the student, the apology to the student and the
  diagnostic to the faculty with the text of the exception.
\<close>

theorem result_email_precedes_archive_failure:
  assumes "parse_submission_repo_path x (student_repo_path self) = Inr (f, c, a)"
    and "class_is_open x c f" and "\<not> is_disabled x c a f"
    and "run_tests_prepare x self a w = (Inr tp, w1)"
    and "run_tests_make_command x self tp a w1 = (Inr cmd, w2)"
    and "run_command x cmd w2 = (Inr out, w3)"
    and "run_tests_completed x self f c a out w3 = (Inl e, w4)"
  shows "username (student self) \<noteq> f
       \<and> fst (add_report x self out
                (record_call (LockAcquire (path (assignment_dir self)))
                   (w3\<lparr>emails := emails w3 @
              [\<lparr>to_address = email_address (student self),
                subject = ''['' @ c @ ''] '' @ a @ '' submission test results'',
                body = Text out, html_pre_body = True\<rparr>]\<rparr>))) = Inl e
       \<and> emails w4 =
           emails w3 @
              [\<lparr>to_address = email_address (student self),
                subject = ''['' @ c @ ''] '' @ a @ '' submission test results'',
                body = Text out, html_pre_body = True\<rparr>]
       \<and> emails (snd (run_tests x self w)) =
           emails w @
              [\<lparr>to_address = email_address (student self),
                subject = ''['' @ c @ ''] '' @ a @ '' submission test results'',
                body = Text out, html_pre_body = True\<rparr>,
               \<lparr>to_address = email_address (student self),
                subject = a @ '': Failed to process submission - contact instructor'',
                body = Lines [''Your submission was received, but something went wrong.'',
                              ''This is likely your instructor'' @ [CHR 0x27]
                                @ ''s fault, not yours.'',
                              ''Please contact your instructor about this error!''],
                html_pre_body = False\<rparr>,
               \<lparr>to_address = faculty_email self,
                subject = ''git-keeper run_tests failure'',
                body = Lines [''student: '' @ first_name (student self) @ '' ''
                                @ last_name (student self),
                              ''email: '' @ email_address (student self),
                              ''assignment '' @ a,
                              ''further information:'',
                              str_exn e],
                html_pre_body = False\<rparr>]"
proof -
  let ?w3' = "w3\<lparr>emails := emails w3 @ [result_email self c a out]\<rparr>"
  let ?w3'' = "record_call (LockAcquire (path (assignment_dir self))) ?w3'"
  have student: "username (student self) \<noteq> f"
    using assms(7)
    by (auto simp: run_tests_completed_def io_then_def io_bind_def enqueue_email_def io_return_def)
  obtain r w5 where ar: "add_report x self out ?w3'' = (r, w5)"
    by (cases "add_report x self out ?w3''")
  with assms(7) student have r: "r = Inl e"
    and w4: "w4 = record_call (LockRelease (path (assignment_dir self))) w5"
    by (auto simp: run_tests_completed_def io_then_def io_bind_def enqueue_email_def
        with_lock_def enqueue_submission_scan_def split: sum.splits)
  have "queues w5 = queues ?w3''"
    using keeps_queues_add_report ar by (rule keepsD)
  with w4 have mail4: "emails w4 = emails w3 @ [result_email self c a out]"
    by (simp add: queues_def record_call_def)
  let ?w6 = "w4\<lparr>emails := emails w4 @ [failure_student_email a (student self),
                failure_faculty_email a (student self) (faculty_email self) (str_exn e)]\<rparr>"
  have run: "run_tests x self w = run_tests_cleanup x tp ?w6"
    using assms(7) by (simp add: run_tests_completing [OF assms(1-6)])
  have "queues (snd (run_tests_cleanup x tp ?w6)) = queues ?w6"
    using keeps_queues_cleanup by (simp add: keeps_def)
  with before_completed(1) [OF assms(4-6)] mail4 run student ar r show ?thesis
    by (simp add: queues_def result_email_def failure_student_email_def
        failure_faculty_email_def)
qed

theorem result_email_precedes_archive_failure_witness:
  "emails (snd (run_tests commit_fails_ext alice_submission empty_world)) =
     [\<lparr>to_address = ''alice@school.edu'',
       subject = ''[cs1] hw1 submission test results'',
       body = Text ''All tests passed'', html_pre_body = True\<rparr>,
      \<lparr>to_address = ''alice@school.edu'',
       subject = ''hw1: Failed to process submission - contact instructor'',
       body = Lines [''Your submission was received, but something went wrong.'',
                     ''This is likely your instructor'' @ [CHR 0x27] @ ''s fault, not yours.'',
                     ''Please contact your instructor about this error!''],
       html_pre_body = False\<rparr>,
      \<lparr>to_address = ''prof@school.edu'',
       subject = ''git-keeper run_tests failure'',
       body = Lines [''student: Alice Liddell'',
                     ''email: alice@school.edu'',
                     ''assignment hw1'',
                     ''further information:'',
                     ''nothing to commit''],
       html_pre_body = False\<rparr>]"
proof -
  let ?x = commit_fails_ext
  let ?e = "OtherException ''nothing to commit''"
  let ?tp = "''/home/tester/15_k3x''"
  let ?w1 = "snd (run_tests_prepare ?x alice_submission ''hw1'' empty_world)"
  let ?cmd = "make_host_command ?x alice_submission (os_path_join ?tp ''run_action.sh'')
                (os_path_join ?tp ''hw1'')"
  let ?w3 = "?w1\<lparr>spawned := spawned ?w1 @ [?cmd]\<rparr>"
  let ?done = "run_tests_completed ?x alice_submission ''prof'' ''cs1'' ''hw1''
                 ''All tests passed'' ?w3"
  have parse: "parse_submission_repo_path ?x (student_repo_path alice_submission) =
      Inr (''prof'', ''cs1'', ''hw1'')"
    and opn: "class_is_open ?x ''cs1'' ''prof''"
    and ena: "\<not> is_disabled ?x ''cs1'' ''hw1'' ''prof''"
    and env: "TestEnv_result ?x (test_env_path (assignment_dir alice_submission)) = Inr host_env"
    and ty: "type host_env = HOST"
    by (simp_all add: commit_fails_ext_def ok_ext_sel host_env_def)
  have prep: "run_tests_prepare ?x alice_submission ''hw1'' empty_world = (Inr ?tp, ?w1)"
    by (simp add: commit_fails_ext_def run_eval cong: world_congs)
  have mk: "run_tests_make_command ?x alice_submission ?tp ''hw1'' ?w1 = (Inr ?cmd, ?w1)"
    using env ty by (rule make_command_host)
  have "run_command_result ?x cmd = Inr ''All tests passed''" for cmd
    by (simp add: commit_fails_ext_def ok_ext_sel)
  then have rc: "run_command ?x ?cmd ?w1 = (Inr ''All tests passed'', ?w3)"
    by (simp only: run_command_def)
  have "fst (add_report ?x alice_submission ''All tests passed'' v) = Inl ?e" for v
    by (rule add_report_commit_raises [of _ _ "''/tmp/wc/reports''"])
       (simp_all add: commit_fails_ext_def ok_ext_sel)
  moreover have "username (student alice_submission) \<noteq> ''prof''"
    by (simp add: alice_submission_def alice_def)
  ultimately have "fst ?done = Inl ?e"
    by (intro completed_raises)
  then have fin: "?done = (Inl ?e, snd ?done)"
    by (simp add: prod_eq_iff)
  from result_email_precedes_archive_failure [OF parse opn ena prep mk rc fin, THEN conjunct2,
      THEN conjunct2, THEN conjunct2]
  show ?thesis
    by (simp add: alice_submission_def alice_def empty_world_def)
qed

subsection \<open>The names of the reports\<close>

lemma report_path_loop_result:
  "(\<not> path_exists w p \<and> report_path_loop w d ts c p = p) \<or>
   (path_exists w p \<and>
    (\<exists>k\<ge>c. report_path_loop w d ts c p =
              os_path_join d (''report-'' @ ts @ ''-'' @ str_nat k @ ''.txt'')
         \<and> \<not> path_exists w (os_path_join d (''report-'' @ ts @ ''-'' @ str_nat k @ ''.txt''))
         \<and> (\<forall>j. c \<le> j \<and> j < k \<longrightarrow>
                path_exists w (os_path_join d (''report-'' @ ts @ ''-'' @ str_nat j @ ''.txt'')))))"
proof (induction w d ts c p rule: report_path_loop.induct)
  case (1 w d ts c p)
  let ?N = "\<lambda>k. os_path_join d (''report-'' @ ts @ ''-'' @ str_nat k @ ''.txt'')"
  show ?case
  proof (cases "path_exists w p")
    case False
    then show ?thesis
      by (simp add: report_path_loop_stop)
  next
    case True
    then have step: "report_path_loop w d ts c p = report_path_loop w d ts (c + 1) (?N c)"
      by (rule report_path_loop_step)
    from "1.IH" [OF True] consider
      (stop) "\<not> path_exists w (?N c)" "report_path_loop w d ts (c + 1) (?N c) = ?N c"
    | (more) k where "path_exists w (?N c)" "c + 1 \<le> k"
        "report_path_loop w d ts (c + 1) (?N c) = ?N k" "\<not> path_exists w (?N k)"
        "\<forall>j. c + 1 \<le> j \<and> j < k \<longrightarrow> path_exists w (?N j)"
      by blast
    then show ?thesis
    proof cases
      case stop
      with True step show ?thesis
        by (intro disjI2 conjI exI [of _ c]) auto
    next
      case more
      have "path_exists w (?N j)" if "c \<le> j" "j < k" for j
        using that more(1,5) by (cases "j = c") auto
      with True step more show ?thesis
        by (intro disjI2 conjI exI [of _ k]) auto
    qed
  qed
qed

lemma report_path_loop_least:
  "\<exists>k. report_path_loop w d ts 1 (os_path_join d (''report-'' @ ts @ ''.txt'')) =
          os_path_join d (spec_report_name ts k)
     \<and> \<not> path_exists w (os_path_join d (spec_report_name ts k))
     \<and> (\<forall>j<k. path_exists w (os_path_join d (spec_report_name ts j)))"
proof -
  let ?p = "os_path_join d (''report-'' @ ts @ ''.txt'')"
  from report_path_loop_result [of w ?p d ts 1] consider
    (zero) "\<not> path_exists w ?p" "report_path_loop w d ts 1 ?p = ?p"
  | (more) k where "path_exists w ?p" "1 \<le> k"
      "report_path_loop w d ts 1 ?p = os_path_join d (''report-'' @ ts @ ''-'' @ str_nat k @ ''.txt'')"
      "\<not> path_exists w (os_path_join d (''report-'' @ ts @ ''-'' @ str_nat k @ ''.txt''))"
      "\<forall>j. 1 \<le> j \<and> j < k \<longrightarrow>
          path_exists w (os_path_join d (''report-'' @ ts @ ''-'' @ str_nat j @ ''.txt''))"
    by blast
  then show ?thesis
  proof cases
    case zero
    then show ?thesis
      by (intro exI [of _ 0]) (simp add: spec_report_name_def)
  next
    case more
    have "path_exists w (os_path_join d (spec_report_name ts j))" if "j < k" for j
      using that more(1,5) by (cases "j = 0") (auto simp: spec_report_name_def)
    with more show ?thesis
      by (intro exI [of _ k]) (auto simp: spec_report_name_def)
  qed
qed

lemma os_path_join_longer: "b \<noteq> [] \<Longrightarrow> hd b \<noteq> CHR ''/'' \<Longrightarrow> os_path_join d b \<noteq> d"
  by (cases b) (auto simp: os_path_join_def)

lemma report_path_not_dir: "os_path_join d (spec_report_name ts k) \<noteq> d"
  by (rule os_path_join_longer) (simp_all add: spec_report_name_def)

lemma report_path_0_1:
  "os_path_join d (spec_report_name ts 1) \<noteq> os_path_join d (spec_report_name ts 0)"
  by (simp add: spec_report_name_def os_path_join_def)

lemma map_of_filter_other:
  "q \<noteq> p \<Longrightarrow> map_of (filter (\<lambda>(a, _). a \<noteq> p) xs) q = map_of xs q"
  by (induction xs) auto

lemma add_report_file_system:
  assumes "reports_clone_result x (reports_repo_path (assignment_dir self)) = Inr wc"
    and "d = os_path_join wc (get_last_first_username (student self))"
    and "ts = strftime x ''%Y-%m-%d_%H-%M-%S-%Z''"
    and "add_report x self b w = (Inr (), w')"
  shows "\<exists>k. \<not> path_exists w (os_path_join d (spec_report_name ts k))
     \<and> (\<forall>j<k. path_exists w (os_path_join d (spec_report_name ts j)))
     \<and> files w' = (os_path_join d (spec_report_name ts k), b)
                    # filter (\<lambda>(q, _). q \<noteq> os_path_join d (spec_report_name ts k)) (files w)
     \<and> set (dirs w') = insert d (set (dirs w))"
proof -
  let ?P = "\<lambda>k. os_path_join d (spec_report_name ts k)"
  let ?wa = "record_call (Makedirs d)
               (record_call (ReportsCloneEnter (reports_repo_path (assignment_dir self))) w)"
  let ?wb = "if d \<in> set (dirs ?wa) then ?wa else ?wa\<lparr>dirs := dirs ?wa @ [d]\<rparr>"
  let ?p = "report_path_loop ?wb d ts 1 (os_path_join d (''report-'' @ ts @ ''.txt''))"
  have fs: "files w' = (?p, b) # filter (\<lambda>(q, _). q \<noteq> ?p) (files w)"
    and ds: "set (dirs w') = insert d (set (dirs w))"
    using assms(4) unfolding assms(2,3)
    by (auto simp: add_report_def with_reports_clone_def assms(1) Let_def io_then_def io_bind_def
        makedirs_def write_file_def do_call_fs_def do_call_def put_file_def record_call_def
        split: option.splits sum.splits prod.splits if_splits)
  have ex: "path_exists ?wb q \<longleftrightarrow> path_exists w q \<or> q = d" for q
    by (auto simp: path_exists_def record_call_def)
  from report_path_loop_least [of ?wb d ts] obtain k where k: "?p = ?P k"
    "\<not> path_exists ?wb (?P k)" "\<forall>j<k. path_exists ?wb (?P j)"
    by blast
  from k(2) have "\<not> path_exists w (?P k)"
    by (simp add: ex)
  moreover from k(3) have "\<forall>j<k. path_exists w (?P j)"
    by (simp add: ex report_path_not_dir)
  ultimately show ?thesis
    using fs ds unfolding k(1) by blast
qed

text \<open>
  C6. A report that is archived is written to
  \<^verbatim>\<open>report-<ts>.txt\<close> or \<^verbatim>\<open>report-<ts>-<n>.txt\<close> in the directory of the student, where
  \<^verbatim>\<open><ts>\<close> is \<^verbatim>\<open>strftime('%Y-%m-%d_%H-%M-%S-%Z')\<close> (seconds and the time zone) and the
  number is the least one whose name does not exist yet: the path did not exist, every
  name with a smaller number did, the file holds the report and no other file has
  changed. A second report archived with the same time stamp gets a larger number and
  leaves the first file as it is; when the first had no suffix and \<^verbatim>\<open>report-<ts>-1.txt\<close>
  did not exist, the second is \<^verbatim>\<open>report-<ts>-1.txt\<close>.
\<close>

theorem report_written_under_fresh_name:
  assumes "reports_clone_result x (reports_repo_path (assignment_dir self)) = Inr wc"
    and "d = os_path_join wc (get_last_first_username (student self))"
    and "ts = strftime x ''%Y-%m-%d_%H-%M-%S-%Z''"
    and "add_report x self b1 w = (Inr (), w1)"
  shows "\<exists>k1. \<not> path_exists w (os_path_join d (spec_report_name ts k1))
     \<and> (\<forall>j<k1. path_exists w (os_path_join d (spec_report_name ts j)))
     \<and> read_file w1 (os_path_join d (spec_report_name ts k1)) = Some b1
     \<and> (\<forall>q. q \<noteq> os_path_join d (spec_report_name ts k1) \<longrightarrow> read_file w1 q = read_file w q)
     \<and> (\<forall>b2 w2. add_report x self b2 w1 = (Inr (), w2) \<longrightarrow>
           (\<exists>k2. k1 < k2
              \<and> \<not> path_exists w1 (os_path_join d (spec_report_name ts k2))
              \<and> (\<forall>j<k2. path_exists w1 (os_path_join d (spec_report_name ts j)))
              \<and> read_file w2 (os_path_join d (spec_report_name ts k1)) = Some b1
              \<and> read_file w2 (os_path_join d (spec_report_name ts k2)) = Some b2
              \<and> (k1 = 0 \<and> \<not> path_exists w (os_path_join d (spec_report_name ts 1))
                    \<longrightarrow> k2 = 1)))"
proof -
  let ?P = "\<lambda>k. os_path_join d (spec_report_name ts k)"
  from add_report_file_system [OF assms] obtain k1 where
    fresh1: "\<not> path_exists w (?P k1)" and least1: "\<forall>j<k1. path_exists w (?P j)"
    and files1: "files w1 = (?P k1, b1) # filter (\<lambda>(q, _). q \<noteq> ?P k1) (files w)"
    and dirs1: "set (dirs w1) = insert d (set (dirs w))"
    by blast
  have read1: "read_file w1 (?P k1) = Some b1"
    by (simp add: read_file_def files1)
  have other1: "read_file w1 q = read_file w q" if "q \<noteq> ?P k1" for q
    using that by (simp add: read_file_def files1 map_of_filter_other)
  have exists1: "path_exists w1 q \<longleftrightarrow> path_exists w q \<or> q = d \<or> q = ?P k1" for q
    unfolding path_exists_def files1 dirs1 by force
  have second: "\<exists>k2. k1 < k2 \<and> \<not> path_exists w1 (?P k2) \<and> (\<forall>j<k2. path_exists w1 (?P j))
      \<and> read_file w2 (?P k1) = Some b1 \<and> read_file w2 (?P k2) = Some b2
      \<and> (k1 = 0 \<and> \<not> path_exists w (?P 1) \<longrightarrow> k2 = 1)"
    if run2: "add_report x self b2 w1 = (Inr (), w2)" for b2 w2
  proof -
    from add_report_file_system [OF assms(1-3) run2] obtain k2 where
      fresh2: "\<not> path_exists w1 (?P k2)" and least2: "\<forall>j<k2. path_exists w1 (?P j)"
      and files2: "files w2 = (?P k2, b2) # filter (\<lambda>(q, _). q \<noteq> ?P k2) (files w1)"
      by blast
    have differ: "?P k1 \<noteq> ?P k2"
      using fresh2 exists1 [of "?P k1"] by auto
    have "\<not> k2 < k1"
      using fresh2 least1 exists1 by blast
    moreover have "k2 \<noteq> k1"
      using differ by auto
    ultimately have less: "k1 < k2"
      by simp
    have keep: "read_file w2 (?P k1) = Some b1"
      using differ read1 by (simp add: read_file_def files2 map_of_filter_other)
    have new: "read_file w2 (?P k2) = Some b2"
      by (simp add: read_file_def files2)
    have one: "k2 = 1" if "k1 = 0" and "\<not> path_exists w (?P 1)"
    proof (rule ccontr)
      assume "k2 \<noteq> 1"
      with less that(1) have "1 < k2"
        by simp
      with least2 have "path_exists w1 (?P 1)"
        by blast
      with that show False
        using report_path_not_dir [of d ts 1] report_path_0_1 [of d ts]
        by (simp add: exists1)
    qed
    from less fresh2 least2 keep new one show ?thesis
      by blast
  qed
  from fresh1 least1 read1 other1 second show ?thesis
    by blast
qed

text \<open>Two reports of one second in an empty working copy.\<close>

lemma add_report_returns:
  assumes "reports_clone_result x (reports_repo_path (assignment_dir self)) = Inr wc"
    and "\<And>cl. outcome x cl = None"
  shows "fst (add_report x self b w) = Inr ()"
  using assms
  by (simp add: add_report_def with_reports_clone_def Let_def io_then_def io_bind_def
      makedirs_def write_file_def do_call_fs_def do_call_def)

theorem report_written_under_fresh_name_witness:
  "read_file (snd (add_report ok_ext alice_submission ''second''
                (snd (add_report ok_ext alice_submission ''first'' empty_world))))
     ''/tmp/wc/reports/Liddell_Alice_alice/report-2017-07-14_02-40-00-UTC.txt'' = Some ''first''
   \<and> read_file (snd (add_report ok_ext alice_submission ''second''
                (snd (add_report ok_ext alice_submission ''first'' empty_world))))
     ''/tmp/wc/reports/Liddell_Alice_alice/report-2017-07-14_02-40-00-UTC-1.txt'' = Some ''second''"
proof -
  define d where "d = ''/tmp/wc/reports/Liddell_Alice_alice''"
  define ts where "ts = ''2017-07-14_02-40-00-UTC''"
  define b1 where "b1 = ''first''"
  define b2 where "b2 = ''second''"
  define w1 where "w1 = snd (add_report ok_ext alice_submission b1 empty_world)"
  define w2 where "w2 = snd (add_report ok_ext alice_submission b2 w1)"
  have clone: "reports_clone_result ok_ext (reports_repo_path (assignment_dir alice_submission))
      = Inr ''/tmp/wc/reports''"
    and d: "d = os_path_join ''/tmp/wc/reports'' (get_last_first_username (student alice_submission))"
    and ts: "ts = strftime ok_ext ''%Y-%m-%d_%H-%M-%S-%Z''"
    by (simp_all add: d_def ts_def ok_ext_sel alice_submission_def alice_def
        get_last_first_username_def os_path_join_def)
  have ret: "fst (add_report ok_ext alice_submission b v) = Inr ()" for b v
    using clone by (rule add_report_returns) (simp add: ok_ext_sel)
  have run1: "add_report ok_ext alice_submission b1 empty_world = (Inr (), w1)"
    and run2: "add_report ok_ext alice_submission b2 w1 = (Inr (), w2)"
    using ret by (simp_all add: prod_eq_iff w1_def w2_def)
  have none: "\<not> path_exists empty_world q" for q
    by (simp add: path_exists_def empty_world_def)
  from report_written_under_fresh_name [OF clone d ts run1] obtain k1 where
    least: "\<forall>j<k1. path_exists empty_world (os_path_join d (spec_report_name ts j))"
    and next_one: "\<forall>b2 w2. add_report ok_ext alice_submission b2 w1 = (Inr (), w2) \<longrightarrow>
      (\<exists>k2. k1 < k2
         \<and> \<not> path_exists w1 (os_path_join d (spec_report_name ts k2))
         \<and> (\<forall>j<k2. path_exists w1 (os_path_join d (spec_report_name ts j)))
         \<and> read_file w2 (os_path_join d (spec_report_name ts k1)) = Some b1
         \<and> read_file w2 (os_path_join d (spec_report_name ts k2)) = Some b2
         \<and> (k1 = 0 \<and> \<not> path_exists empty_world (os_path_join d (spec_report_name ts 1))
               \<longrightarrow> k2 = 1))"
    by (elim exE conjE) (rule that, assumption+)
  from least none have k1: "k1 = 0"
    by (cases k1) auto
  from next_one [rule_format, OF run2] obtain k2 where
    "read_file w2 (os_path_join d (spec_report_name ts k1)) = Some b1"
    and "read_file w2 (os_path_join d (spec_report_name ts k2)) = Some b2"
    and "k1 = 0 \<and> \<not> path_exists empty_world (os_path_join d (spec_report_name ts 1))
           \<longrightarrow> k2 = 1"
    by (elim exE conjE) (rule that, assumption+)
  with k1 none have "read_file w2 (os_path_join d (spec_report_name ts 0)) = Some b1"
    and "read_file w2 (os_path_join d (spec_report_name ts 1)) = Some b2"
    by simp_all
  then show ?thesis
    unfolding w2_def w1_def b1_def b2_def d_def ts_def
    by (simp add: spec_report_name_def os_path_join_def str_nat.simps digit_char_def)
qed

end
